theory Spec2Isabelle
  imports Complex_Main "HOL-Library.Word" "HOL-Library.Log_Nat" "HOL-Library.Sublist"
begin

section \<open>Machine numbers of the Go program\<close>

text \<open>
  The program is Go: \<open>int32\<close> is a 32-bit two's complement integer, \<open>int\<close> is taken
  as 64 bits wide (the 64-bit platforms the tool is released for), and \<open>float64\<close> is an
  IEEE 754 binary64 number. Integers are words; signed comparisons read them with
  \<open>sint\<close>.
\<close>

type_synonym int32 = "32 word"
type_synonym int64 = "64 word"

subsection \<open>IEEE 754 rounding on rationals\<close>

text \<open>
  Every finite floating-point number is a rational, so a finite \<open>float64\<close> is modelled
  by its exact value and every operation rounds the exact result to the nearest
  representable number, ties to even, as IEEE 754 prescribes for Go's \<open>+ - * /\<close> and
  conversions. \<open>round_float p emin\<close> rounds to \<open>p\<close> significant bits with least normal
  exponent \<open>emin\<close> (below it the spacing stays \<open>2 powi (emin - p + 1)\<close>: subnormals).
  The sign of zero is not modelled: the program can observe it only through a division
  by zero, and its only divisors are conversions of integers, which give \<open>+0\<close>.
\<close>

definition rne :: "rat \<Rightarrow> int" where
  "rne x = (let f = \<lfloor>x\<rfloor>; d = x - of_int f
            in if d < 1/2 then f else if 1/2 < d then f + 1
               else if even f then f else f + 1)"

definition ilog2 :: "rat \<Rightarrow> int" where
  "ilog2 x = (case quotient_of x of (a, b) \<Rightarrow>
      let d = bitlen a - bitlen b in if 2 powi d \<le> x then d else d - 1)"

definition round_float :: "nat \<Rightarrow> int \<Rightarrow> rat \<Rightarrow> rat" where
  "round_float p emin x =
     (if x = 0 then 0
      else let e = max (ilog2 \<bar>x\<bar>) emin; u = 2 powi (e - int p + 1)
           in of_int (rne (x / u)) * u)"

datatype float64 = Finite rat | PosInf | NegInf | NaN

definition fl64 :: "rat \<Rightarrow> float64" where
  "fl64 x = (let r = round_float 53 (- 1022) x
             in if 2 ^ 1024 \<le> r then PosInf
                else if r \<le> - (2 ^ 1024) then NegInf
                else Finite r)"

text \<open>The result of an operation whose exact value is infinite: its sign, or NaN for \<open>0/0\<close>.\<close>

definition inf_of_sign :: "rat \<Rightarrow> float64" where
  "inf_of_sign s = (if 0 < s then PosInf else if s < 0 then NegInf else NaN)"

fun fmul :: "float64 \<Rightarrow> float64 \<Rightarrow> float64" where
  "fmul (Finite a) (Finite b) = fl64 (a * b)"
| "fmul NaN y = NaN"
| "fmul x NaN = NaN"
| "fmul PosInf (Finite b) = inf_of_sign b"
| "fmul NegInf (Finite b) = inf_of_sign (- b)"
| "fmul (Finite a) PosInf = inf_of_sign a"
| "fmul (Finite a) NegInf = inf_of_sign (- a)"
| "fmul PosInf PosInf = PosInf"
| "fmul NegInf NegInf = PosInf"
| "fmul PosInf NegInf = NegInf"
| "fmul NegInf PosInf = NegInf"

fun fdiv :: "float64 \<Rightarrow> float64 \<Rightarrow> float64" where
  "fdiv (Finite a) (Finite b) = (if b = 0 then inf_of_sign a else fl64 (a / b))"
| "fdiv NaN y = NaN"
| "fdiv x NaN = NaN"
| "fdiv (Finite a) PosInf = Finite 0"
| "fdiv (Finite a) NegInf = Finite 0"
| "fdiv PosInf (Finite b) = (if 0 \<le> b then PosInf else NegInf)"
| "fdiv NegInf (Finite b) = (if 0 \<le> b then NegInf else PosInf)"
| "fdiv PosInf PosInf = NaN"
| "fdiv PosInf NegInf = NaN"
| "fdiv NegInf PosInf = NaN"
| "fdiv NegInf NegInf = NaN"

text \<open>\<open>math.Ceil\<close>: the least integer not below the argument; infinities and NaN are kept.\<close>

fun Ceil :: "float64 \<Rightarrow> float64" where
  "Ceil (Finite a) = Finite (of_int \<lceil>a\<rceil>)"
| "Ceil PosInf = PosInf"
| "Ceil NegInf = NegInf"
| "Ceil NaN = NaN"

text \<open>\<open>float64(i)\<close> for an integer \<open>i\<close>: exact below \<open>2 ^ 53\<close>, rounded above.\<close>

definition float64_of_int :: "int \<Rightarrow> float64" where
  "float64_of_int i = fl64 (of_int i)"

text \<open>
  \<open>int32(f)\<close> and \<open>int(f)\<close> discard the fraction (truncation towards zero). When the
  truncated value does not fit the integer type, or \<open>f\<close> is an infinity or NaN, Go
  leaves the result to the implementation: it is the parameter \<open>oor\<close> here, so that
  every theorem holds whatever the platform returns.
\<close>

definition trunc :: "rat \<Rightarrow> int" where
  "trunc q = (if 0 \<le> q then \<lfloor>q\<rfloor> else \<lceil>q\<rceil>)"

definition int32_of_float64 :: "(float64 \<Rightarrow> int32) \<Rightarrow> float64 \<Rightarrow> int32" where
  "int32_of_float64 oor f =
     (case f of
        Finite q \<Rightarrow>
          (let t = trunc q
           in if - (2 ^ 31) \<le> t \<and> t < 2 ^ 31 then word_of_int t else oor f)
      | PosInf \<Rightarrow> oor f
      | NegInf \<Rightarrow> oor f
      | NaN \<Rightarrow> oor f)"

definition int64_of_float64 :: "(float64 \<Rightarrow> int64) \<Rightarrow> float64 \<Rightarrow> int64" where
  "int64_of_float64 oor f =
     (case f of
        Finite q \<Rightarrow>
          (let t = trunc q
           in if - (2 ^ 63) \<le> t \<and> t < 2 ^ 63 then word_of_int t else oor f)
      | PosInf \<Rightarrow> oor f
      | NegInf \<Rightarrow> oor f
      | NaN \<Rightarrow> oor f)"

text \<open>
  One concrete platform, for closed examples: the x86-64 conversion instructions return
  the most negative integer for every input they cannot represent.
\<close>

definition indefinite32 :: "float64 \<Rightarrow> int32" where
  "indefinite32 f = - (2 ^ 31)"


section \<open>Outcomes\<close>

text \<open>
  A Go function here ends in one of three ways: it returns normally, it returns a
  non-nil \<open>error\<close>, or it panics (nil dereference, slice bounds, index out of range).
\<close>

datatype panic = NilDereference | SliceBoundsOutOfRange | IndexOutOfRange

datatype err = InvalidArguments | ErrSyntax | ErrRange

datatype 'a result = Ok 'a | Err err | Panic panic

section \<open>Expressions: the regular expressions and \<open>strconv\<close>\<close>

definition isDigit :: "char \<Rightarrow> bool" where
  "isDigit c = (48 \<le> (of_char c :: nat) \<and> (of_char c :: nat) \<le> 57)"

text \<open>The character class \<open>[0-9\\.]\<close>: a digit, a backslash or a dot.\<close>

definition isNumeric :: "char \<Rightarrow> bool" where
  "isNumeric c = (isDigit c \<or> c = CHR 0x5C \<or> c = CHR ''.'')"

text \<open>\<open>Number = ^[0-9]+$\<close>, \<open>Percentage = ^[0-9\\.]+%$\<close>, \<open>Multiply = ^[0-9\\.]+x$\<close>.\<close>

definition Number :: "string \<Rightarrow> bool" where
  "Number s = (case s of [] \<Rightarrow> False | c # cs \<Rightarrow> list_all isDigit s)"

definition Percentage :: "string \<Rightarrow> bool" where
  "Percentage s =
     (case rev s of
        [] \<Rightarrow> False
      | c # r \<Rightarrow> c = CHR ''%'' \<and> (case r of [] \<Rightarrow> False | d # ds \<Rightarrow> list_all isNumeric r))"

definition Multiply :: "string \<Rightarrow> bool" where
  "Multiply s =
     (case rev s of
        [] \<Rightarrow> False
      | c # r \<Rightarrow> c = CHR ''x'' \<and> (case r of [] \<Rightarrow> False | d # ds \<Rightarrow> list_all isNumeric r))"

definition digitVal :: "char \<Rightarrow> nat" where
  "digitVal c = of_char c - 48"

definition decimal :: "string \<Rightarrow> nat" where
  "decimal s = foldl (\<lambda>a c. 10 * a + digitVal c) 0 s"

text \<open>
  \<open>strconv.Atoi\<close>: an optional sign and decimal digits; \<open>ErrRange\<close> when the value does
  not fit \<open>int\<close>, \<open>ErrSyntax\<close> for anything else.
\<close>

definition atoiDigits :: "bool \<Rightarrow> string \<Rightarrow> int64 result" where
  "atoiDigits neg s =
     (case s of
        [] \<Rightarrow> Err ErrSyntax
      | c # cs \<Rightarrow>
          if list_all isDigit s then
            (if neg then
               (if 2 ^ 63 < decimal s then Err ErrRange else Ok (- word_of_nat (decimal s)))
             else
               (if 2 ^ 63 \<le> decimal s then Err ErrRange else Ok (word_of_nat (decimal s))))
          else Err ErrSyntax)"

definition Atoi :: "string \<Rightarrow> int64 result" where
  "Atoi s =
     (case s of
        [] \<Rightarrow> Err ErrSyntax
      | c # cs \<Rightarrow>
          if c = CHR ''-'' then atoiDigits True cs
          else if c = CHR ''+'' then atoiDigits False cs
          else atoiDigits False s)"

text \<open>
  \<open>strconv.ParseFloat(s, 32)\<close> on the strings the program passes to it, which the
  regular expressions restrict to digits, dots and backslashes: digits with at most one
  dot and at least one digit are a decimal number, everything else over that alphabet is
  \<open>ErrSyntax\<close>. The value is rounded to the nearest \<open>float32\<close> (24 significant bits,
  least normal exponent \<open>-126\<close>) and returned as a \<open>float64\<close>; a value that rounds
  beyond the largest \<open>float32\<close> is \<open>ErrRange\<close>. (Signs, exponents, hexadecimal
  numbers and the names of infinity and NaN, which the real function also reads, contain
  a character outside that alphabet.)
\<close>

definition float32_of_rat :: "rat \<Rightarrow> float64 result" where
  "float32_of_rat x =
     (let r = round_float 24 (- 126) x
      in if 2 ^ 128 \<le> r then Err ErrRange else Ok (Finite r))"

definition ParseFloat32 :: "string \<Rightarrow> float64 result" where
  "ParseFloat32 s =
     (let ip = takeWhile isDigit s; rest = dropWhile isDigit s
      in case rest of
           [] \<Rightarrow> (case ip of [] \<Rightarrow> Err ErrSyntax | c # cs \<Rightarrow> float32_of_rat (of_nat (decimal ip)))
         | d # fp \<Rightarrow>
             if d = CHR ''.'' \<and> list_all isDigit fp \<and> 0 < length ip + length fp
             then float32_of_rat (of_nat (decimal (ip @ fp)) / 10 ^ length fp)
             else Err ErrSyntax)"

text \<open>
  The number that a decimal numeral writes (digits, optionally a dot and more digits),
  as an exact rational: the multiplier or percentage that the expression denotes,
  before \<open>ParseFloat32\<close> rounds it to a \<open>float32\<close>.
\<close>

definition decimalValue :: "string \<Rightarrow> rat" where
  "decimalValue s =
     (let ip = takeWhile isDigit s; rest = dropWhile isDigit s
      in case rest of
           [] \<Rightarrow> of_nat (decimal ip)
         | d # fp \<Rightarrow> of_nat (decimal (ip @ fp)) / 10 ^ length fp)"

section \<open>The autoscaler record and the strategies\<close>

text \<open>
  The fields of \<open>hpa.Spec\<close> that the strategies touch. \<open>MinReplicas\<close> and
  \<open>TargetCPUUtilizationPercentage\<close> are \<open>*int32\<close>: \<open>None\<close> is the nil pointer and
  \<open>Some v\<close> a pointer to \<open>v\<close>. Which cell a pointer designates is not modelled: no
  strategy reads a cell it did not reach through the record.
\<close>

record HorizontalPodAutoscaler =
  MinReplicas :: "int32 option"
  MaxReplicas :: int32
  TargetCPUUtilizationPercentage :: "int32 option"

text \<open>The command's flags that \<open>getStrategy\<close> reads.\<close>

record Hpa =
  Minimum :: string
  Maximum :: string
  CPUTarget :: int64

type_synonym strategy = "HorizontalPodAutoscaler \<Rightarrow> HorizontalPodAutoscaler result"

definition reconcileMax :: strategy where
  "reconcileMax hpa =
     (case MinReplicas hpa of
        None \<Rightarrow> Panic NilDereference
      | Some m \<Rightarrow> if MaxReplicas hpa <s m then Ok (hpa\<lparr>MaxReplicas := m\<rparr>) else Ok hpa)"

definition reconcileMin :: strategy where
  "reconcileMin hpa =
     (case MinReplicas hpa of
        None \<Rightarrow> Panic NilDereference
      | Some m \<Rightarrow>
          if MaxReplicas hpa <s m then Ok (hpa\<lparr>MinReplicas := Some (MaxReplicas hpa)\<rparr>)
          else Ok hpa)"

text \<open>
  \<open>getStrategy\<close>: the \<open>switch\<close> takes the first case whose condition holds. Each closure
  is the function the case returns; all of them return a nil error, so a strategy ends
  in \<open>Ok\<close> with the updated record or in a panic.
\<close>

definition getStrategy :: "(float64 \<Rightarrow> int32) \<Rightarrow> Hpa \<Rightarrow> strategy result" where
  "getStrategy oor program =
     (if 0 <s CPUTarget program then
        Ok (\<lambda>hpa. case TargetCPUUtilizationPercentage hpa of
                     None \<Rightarrow> Panic NilDereference
                   | Some t \<Rightarrow>
                       Ok (hpa\<lparr>TargetCPUUtilizationPercentage := Some (ucast (CPUTarget program))\<rparr>))
      else if Number (Minimum program) then
        (case Atoi (Minimum program) of
           Err e \<Rightarrow> Err e
         | Panic p \<Rightarrow> Panic p
         | Ok num \<Rightarrow>
             Ok (\<lambda>hpa. let minimum = ucast num
                        in reconcileMax (hpa\<lparr>MinReplicas := Some minimum\<rparr>)))
      else if Percentage (Minimum program) then
        (case ParseFloat32 (butlast (Minimum program)) of
           Err e \<Rightarrow> Err e
         | Panic p \<Rightarrow> Panic p
         | Ok percent \<Rightarrow>
             Ok (\<lambda>hpa. let minimum = int32_of_float64 oor
                                        (Ceil (fmul (fdiv percent (Finite 100))
                                                    (float64_of_int (sint (MaxReplicas hpa)))))
                        in case MinReplicas hpa of
                             None \<Rightarrow> Panic NilDereference
                           | Some m \<Rightarrow> reconcileMax (hpa\<lparr>MinReplicas := Some minimum\<rparr>)))
      else if Multiply (Minimum program) then
        (case ParseFloat32 (butlast (Minimum program)) of
           Err e \<Rightarrow> Err e
         | Panic p \<Rightarrow> Panic p
         | Ok multiplier \<Rightarrow>
             Ok (\<lambda>hpa. case MinReplicas hpa of
                          None \<Rightarrow> Panic NilDereference
                        | Some m \<Rightarrow>
                            let minimum = int32_of_float64 oor
                                            (fmul (float64_of_int (sint m)) multiplier)
                            in reconcileMax (hpa\<lparr>MinReplicas := Some minimum\<rparr>)))
      else if Number (Maximum program) then
        (case Atoi (Maximum program) of
           Err e \<Rightarrow> Err e
         | Panic p \<Rightarrow> Panic p
         | Ok num \<Rightarrow> Ok (\<lambda>hpa. reconcileMin (hpa\<lparr>MaxReplicas := ucast num\<rparr>)))
      else if Percentage (Maximum program) then
        (case ParseFloat32 (butlast (Maximum program)) of
           Err e \<Rightarrow> Err e
         | Panic p \<Rightarrow> Panic p
         | Ok percent \<Rightarrow>
             Ok (\<lambda>hpa. let maximum = int32_of_float64 oor
                                        (Ceil (fmul (fdiv percent (Finite 100))
                                                    (float64_of_int (sint (MaxReplicas hpa)))))
                        in reconcileMin (hpa\<lparr>MaxReplicas := maximum\<rparr>)))
      else if Multiply (Maximum program) then
        (case ParseFloat32 (butlast (Maximum program)) of
           Err e \<Rightarrow> Err e
         | Panic p \<Rightarrow> Panic p
         | Ok multiplier \<Rightarrow>
             Ok (\<lambda>hpa. let maximum = int32_of_float64 oor
                                        (fmul (float64_of_int (sint (MaxReplicas hpa))) multiplier)
                        in reconcileMin (hpa\<lparr>MaxReplicas := maximum\<rparr>)))
      else Err InvalidArguments)"

text \<open>
  \<open>Run\<close> resolves the strategy once and \<open>modifyHPA\<close> calls it on a record: the
  resolution's error ends the run before any record is reached.
\<close>

definition update :: "(float64 \<Rightarrow> int32) \<Rightarrow> Hpa \<Rightarrow> HorizontalPodAutoscaler \<Rightarrow> HorizontalPodAutoscaler result" where
  "update oor program hpa =
     (case getStrategy oor program of
        Err e \<Rightarrow> Err e
      | Panic p \<Rightarrow> Panic p
      | Ok cal \<Rightarrow> cal hpa)"

text \<open>An expression that one of the three regular expressions accepts.\<close>

abbreviation recognized :: "string \<Rightarrow> bool" where
  "recognized s \<equiv> Number s \<or> Percentage s \<or> Multiply s"

section \<open>The gauge renderer\<close>

record Mark =
  Mark :: string
  Postion :: int64

text \<open>The sentinel \<open>Max = Mark{"|", math.MaxInt}\<close>.\<close>

definition Max_sentinel :: Mark where
  "Max_sentinel = \<lparr>Mark = ''|'', Postion = 2 ^ 63 - 1\<rparr>"

definition field :: string where
  "field = replicate 40 (CHR ''.'')"

definition spaces :: string where
  "spaces = replicate (length field) (CHR '' '')"

text \<open>\<open>fmt.Sprint\<close> of an \<open>int32\<close>: its decimal digits, with a minus sign when negative.\<close>

fun digits :: "nat \<Rightarrow> string" where
  "digits n = (if n < 10 then [''0123456789'' ! n]
               else digits (n div 10) @ [''0123456789'' ! (n mod 10)])"

declare digits.simps [simp del]

definition Sprint :: "int32 \<Rightarrow> string" where
  "Sprint v = (if sint v < 0 then CHR ''-'' # digits (nat (- sint v)) else digits (nat (sint v)))"

text \<open>
  The body of \<open>for _, mark := range marks\<close>, over the marks still to visit; \<open>marks\<close>
  is the whole sorted slice, read for \<open>marks[0]\<close> (the body runs only when the slice
  has an element). The builder is the string written so far and \<open>cur\<close> the cursor.
  \<open>field[0 : chars-1]\<close> panics when \<open>chars - 1\<close> exceeds the length of \<open>field\<close>.
\<close>

fun marksLoop ::
  "(float64 \<Rightarrow> int64) \<Rightarrow> int32 \<Rightarrow> float64 \<Rightarrow> Mark list \<Rightarrow> Mark list \<Rightarrow> string \<times> int64
     \<Rightarrow> (string \<times> int64) result" where
  "marksLoop oor mx scale marks [] (builder, cur) = Ok (builder, cur)"
| "marksLoop oor mx scale marks (mark # rest) (builder, cur) =
     (let pos = int64_of_float64 oor
                  (fmul (fdiv (float64_of_int (sint (Postion mark))) (float64_of_int (sint mx))) scale)
      in if scast mx <s Postion mark then marksLoop oor mx scale marks rest (builder, cur)
         else
           let chars = pos - cur
           in if 0 <s chars then
                (if word_of_nat (length field) <s chars - 1 then Panic SliceBoundsOutOfRange
                 else marksLoop oor mx scale marks rest
                        (builder @ take (unat (chars - 1)) field @ Mark mark,
                         cur + chars + word_of_nat (length (Mark mark))))
              else if mark = hd marks then
                marksLoop oor mx scale marks rest
                  (builder @ Mark mark, cur + word_of_nat (length (Mark mark)))
              else marksLoop oor mx scale marks rest (builder, cur))"

text \<open>
  The statements after the loop, on the loop's outcome: the final fill
  \<open>field[0 : int(scale) - builder.Len()]\<close>, the closing border and, when the last mark
  of the sorted slice is the sentinel, the decimal \<open>max\<close>. Slicing \<open>field\<close> beyond
  its length or to a negative length panics, and so does \<open>marks[len(marks)-1]\<close> on an
  empty slice.
\<close>

definition closeGauge ::
  "(float64 \<Rightarrow> int64) \<Rightarrow> int32 \<Rightarrow> float64 \<Rightarrow> Mark list \<Rightarrow> (string \<times> int64) result
     \<Rightarrow> string result" where
  "closeGauge oor mx scale marks r =
     (case r of
        Err e \<Rightarrow> Err e
      | Panic p \<Rightarrow> Panic p
      | Ok (builder, cur) \<Rightarrow>
          let chars = int64_of_float64 oor scale - word_of_nat (length builder)
          in if chars <s 0 \<or> word_of_nat (length field) <s chars
             then Panic SliceBoundsOutOfRange
             else
               let builder = builder @ take (unat chars) field @ ''| ''
               in (case marks of
                     [] \<Rightarrow> Panic IndexOutOfRange
                   | m # ms \<Rightarrow>
                       if last marks = Max_sentinel then Ok (builder @ Sprint mx)
                       else Ok builder))"

text \<open>
  \<open>sort.Slice(marks, ...)\<close> with the order \<open>marks[i].Postion < marks[j].Postion\<close>.
  The program calls \<open>errors.Join\<close>, so its library is that of Go 1.20 or later. There,
  on a slice of at most twelve elements \<open>sort.Slice\<close> runs an insertion sort, which
  keeps marks of equal position in their order: \<open>sort_key\<close> on the signed position. On
  a longer slice it runs a pattern-defeating quicksort, which Go does not promise to be
  stable; its result is the parameter \<open>pdq\<close>, about which nothing is assumed.
\<close>

definition sortSlice :: "(Mark list \<Rightarrow> Mark list) \<Rightarrow> Mark list \<Rightarrow> Mark list" where
  "sortSlice pdq marks =
     (if length marks \<le> 12 then sort_key (\<lambda>m. sint (Postion m)) marks else pdq marks)"

text \<open>
  \<open>formatMarks(min, max, marks...)\<close>: the sort, the opening border and the padding
  \<open>spaces[0:ls]\<close> (a panic when \<open>ls\<close> is negative or beyond the length of \<open>spaces\<close>),
  the loop and the statements after it.
\<close>

definition formatMarks ::
  "(Mark list \<Rightarrow> Mark list) \<Rightarrow> (float64 \<Rightarrow> int64) \<Rightarrow> int32 \<Rightarrow> int32 \<Rightarrow> Mark list
     \<Rightarrow> string result" where
  "formatMarks pdq oor mn mx marks0 =
     (let marks = sortSlice pdq marks0;
          builder = ''|'';
          scale = float64_of_int (int (length field));
          leading = fdiv (float64_of_int (sint mn)) (float64_of_int (sint mx));
          ls = int64_of_float64 oor (fmul leading scale)
      in if ls <s 0 \<or> word_of_nat (length spaces) <s ls then Panic SliceBoundsOutOfRange
         else closeGauge oor mx scale marks
                (marksLoop oor mx scale marks marks (builder @ take (unat ls) spaces, ls)))"

section \<open>Facts about the rounding\<close>

text \<open>
  \<open>ilog2\<close> is the binary exponent: rounding is decided by the two powers of two that
  enclose the value, which is how concrete values are evaluated below.
\<close>

lemma powi2_less_iff: "(2::rat) powi m < 2 powi n \<longleftrightarrow> m < n"
proof
  assume "(2::rat) powi m < 2 powi n"
  show "m < n"
  proof (rule ccontr)
    assume "\<not> m < n"
    then have "(2::rat) powi n \<le> 2 powi m" by (intro power_int_increasing) auto
    with \<open>(2::rat) powi m < 2 powi n\<close> show False by simp
  qed
next
  assume "m < n"
  then show "(2::rat) powi m < 2 powi n" by (intro power_int_strict_increasing) auto
qed

lemma pos_int_powi_bounds:
  fixes a :: int
  assumes "0 < a"
  shows "(2::rat) powi (bitlen a - 1) \<le> of_int a" "of_int a < (2::rat) powi (bitlen a)"
proof -
  from bitlen_bounds[OF assms] have 1: "2 ^ nat (bitlen a - 1) \<le> a" and 2: "a < 2 ^ nat (bitlen a)"
    by auto
  have b1: "1 \<le> bitlen a" using assms bitlen_eq_zero_iff[of a] bitlen_nonneg[of a] by linarith
  have "(of_int (2 ^ nat (bitlen a - 1)) :: rat) \<le> of_int a" using 1 by (simp only: of_int_le_iff)
  then show "(2::rat) powi (bitlen a - 1) \<le> of_int a"
    using b1 by (simp add: power_int_def)
  have "(of_int a :: rat) < of_int (2 ^ nat (bitlen a))" using 2 by (simp only: of_int_less_iff)
  then show "of_int a < (2::rat) powi (bitlen a)"
    using b1 by (simp add: power_int_def)
qed

lemma ilog2_bounds:
  assumes "0 < x"
  shows "2 powi (ilog2 x) \<le> x" "x < 2 powi (ilog2 x + 1)"
proof -
  obtain a b where q: "quotient_of x = (a, b)" by (cases "quotient_of x")
  then have b: "0 < b" and x: "x = of_int a / of_int b"
    using quotient_of_denom_pos[OF q] quotient_of_div[OF q] by auto
  have a: "0 < a" using assms b x by (simp add: zero_less_divide_iff)
  let ?d = "bitlen a - bitlen b"
  note A = pos_int_powi_bounds[OF a] and B = pos_int_powi_bounds[OF b]
  have bpos: "(0::rat) < of_int b" using b by simp
  have lo: "2 powi (?d - 1) \<le> x"
  proof -
    have "(2::rat) powi (?d - 1) * of_int b \<le> 2 powi (?d - 1) * 2 powi (bitlen b)"
      using B(2) by (intro mult_left_mono) auto
    also have "\<dots> = 2 powi (bitlen a - 1)"
      by (simp add: power_int_add[symmetric])
    also have "\<dots> \<le> of_int a" by (rule A(1))
    finally show ?thesis using bpos by (simp add: x pos_le_divide_eq)
  qed
  have hi: "x < 2 powi (?d + 1)"
  proof -
    have "of_int a < (2::rat) powi (bitlen a)" by (rule A(2))
    also have "\<dots> = 2 powi (?d + 1) * 2 powi (bitlen b - 1)"
      by (simp add: power_int_add[symmetric])
    also have "\<dots> \<le> 2 powi (?d + 1) * of_int b"
      using B(1) by (intro mult_left_mono) auto
    finally show ?thesis using bpos by (simp add: x pos_divide_less_eq)
  qed
  show "2 powi (ilog2 x) \<le> x" using lo by (simp add: ilog2_def q Let_def)
  show "x < 2 powi (ilog2 x + 1)" using hi by (auto simp add: ilog2_def q Let_def not_le)
qed

lemma ilog2_eqI:
  assumes "2 powi e \<le> x" "x < 2 powi (e + 1)"
  shows "ilog2 x = e"
proof -
  have "(0::rat) < 2 powi e" by simp
  with assms(1) have x: "0 < x" by linarith
  note B = ilog2_bounds[OF x]
  have "\<not> ilog2 x < e"
  proof
    assume "ilog2 x < e"
    then have "(2::rat) powi (ilog2 x + 1) \<le> 2 powi e"
      by (intro power_int_increasing) auto
    with B(2) assms(1) show False by simp
  qed
  moreover have "\<not> e < ilog2 x"
  proof
    assume "e < ilog2 x"
    then have "(2::rat) powi (e + 1) \<le> 2 powi (ilog2 x)"
      by (intro power_int_increasing) auto
    with B(1) assms(2) show False by simp
  qed
  ultimately show ?thesis by simp
qed

lemma round_float_eqI:
  assumes "2 powi e \<le> \<bar>x\<bar>" "\<bar>x\<bar> < 2 powi (e + 1)"
  shows "round_float p emin x = of_int (rne (x / 2 powi (max e emin - int p + 1))) * 2 powi (max e emin - int p + 1)"
proof -
  have "(0::rat) < 2 powi e" by simp
  with assms(1) have "0 < \<bar>x\<bar>" by linarith
  then have "x \<noteq> 0" by simp
  then show ?thesis
    by (simp add: round_float_def Let_def ilog2_eqI[OF assms])
qed

lemma rne_of_int [simp]: "rne (of_int k) = k"
  by (simp add: rne_def)

lemma round_float_of_int:
  assumes "\<bar>n\<bar> < 2 ^ p" "emin \<le> 0" "0 < p"
  shows "round_float p emin (of_int n) = of_int n"
proof (cases "n = 0")
  case True
  then show ?thesis by (simp add: round_float_def)
next
  case False
  let ?x = "of_int n :: rat"
  have pos: "0 < \<bar>?x\<bar>" using False by simp
  note B = ilog2_bounds[OF pos]
  let ?e = "ilog2 \<bar>?x\<bar>"
  have "1 \<le> \<bar>?x\<bar>" using False by (simp flip: of_int_abs)
  with B(2) have "(2::rat) powi 0 < 2 powi (?e + 1)" by simp
  then have e0: "0 \<le> ?e" by (simp only: powi2_less_iff)
  have "\<bar>?x\<bar> < 2 powi (int p)" using assms(1) by (simp flip: of_int_abs of_int_less_iff add: )
  with B(1) have "(2::rat) powi ?e < 2 powi (int p)" by simp
  then have ep: "?e < int p" by (simp only: powi2_less_iff)
  define k where "k = nat (int p - 1 - ?e)"
  have me: "max ?e emin = ?e" using e0 assms(2) by simp
  have u: "(2::rat) powi (?e - int p + 1) = 1 / 2 ^ k"
    using ep by (simp add: k_def power_int_def nat_diff_distrib field_simps)
  have "?x / (2 powi (?e - int p + 1)) = of_int (n * 2 ^ k)"
    by (simp add: u)
  then have "rne (?x / (2 powi (?e - int p + 1))) = n * 2 ^ k"
    by (simp only: rne_of_int)
  then show ?thesis using False
    by (simp add: round_float_def Let_def me u)
qed


lemma round_float_exact:
  assumes "x = of_int k * 2 powi j" "\<bar>k\<bar> < 2 ^ p" "emin - int p + 1 \<le> j"
  shows "round_float p emin x = x"
proof (cases "x = 0")
  case True
  then show ?thesis by (simp add: round_float_def)
next
  case False
  then have k0: "k \<noteq> 0" using assms(1) by auto
  have pos: "0 < \<bar>x\<bar>" using False by simp
  note B = ilog2_bounds[OF pos]
  let ?e = "ilog2 \<bar>x\<bar>"
  have "\<bar>x\<bar> = of_int \<bar>k\<bar> * 2 powi j" by (simp add: assms(1) abs_mult)
  also have "\<dots> < 2 ^ p * 2 powi j"
  proof -
    have "rat_of_int \<bar>k\<bar> < of_int (2 ^ p)" using assms(2) by (simp only: of_int_less_iff)
    then show ?thesis by (intro mult_strict_right_mono) simp_all
  qed
  also have "\<dots> = 2 powi (int p + j)" by (simp add: power_int_add)
  finally have "\<bar>x\<bar> < 2 powi (int p + j)" .
  with B(1) have "(2::rat) powi ?e < 2 powi (int p + j)" by simp
  then have ep: "?e < int p + j" by (simp only: powi2_less_iff)
  define m where "m = max ?e emin - int p + 1"
  have mj: "m \<le> j" using ep assms(3) by (simp add: m_def)
  define d where "d = nat (j - m)"
  have "(2::rat) powi j = 2 powi m * 2 powi (int d)"
    using mj by (simp add: d_def flip: power_int_add)
  then have xk: "x = of_int (k * 2 ^ d) * 2 powi m" by (simp add: assms(1))
  have "x / 2 powi m = of_int (k * 2 ^ d)" by (simp add: xk)
  then have r: "rne (x / 2 powi m) = k * 2 ^ d" by (simp only: rne_of_int)
  have "round_float p emin x = of_int (rne (x / 2 powi m)) * 2 powi m"
    using False by (simp add: round_float_def Let_def m_def)
  also have "\<dots> = of_int (k * 2 ^ d) * 2 powi m" by (simp only: r)
  also have "\<dots> = x" by (simp only: xk)
  finally show ?thesis .
qed

lemma rne_eqI:
  assumes "\<bar>x - of_int k\<bar> < 1 / 2"
  shows "rne x = k"
proof (cases "of_int k \<le> x")
  case True
  then have "\<lfloor>x\<rfloor> = k" using assms by (intro floor_unique) (auto simp: abs_less_iff)
  then show ?thesis using assms True by (simp add: rne_def Let_def abs_less_iff)
next
  case False
  then have "\<lfloor>x\<rfloor> = k - 1" using assms by (intro floor_unique) (auto simp: abs_less_iff)
  then show ?thesis using assms False by (simp add: rne_def Let_def abs_less_iff)
qed

lemma fl64_eqI:
  assumes "2 powi e \<le> \<bar>x\<bar>" "\<bar>x\<bar> < 2 powi (e + 1)" "- 1022 \<le> e"
    and "\<bar>x / 2 powi (e - 52) - of_int k\<bar> < 1 / 2"
    and "\<bar>of_int k * 2 powi (e - 52)\<bar> < (2::rat) ^ 1024"
  shows "fl64 x = Finite (of_int k * 2 powi (e - 52))"
proof -
  have m: "max e (- 1022) = e" using assms(3) by simp
  have "round_float 53 (- 1022) x = of_int k * 2 powi (e - 52)"
    using round_float_eqI[OF assms(1,2), of 53 "- 1022"] rne_eqI[OF assms(4)] by (simp add: m)
  then show ?thesis using assms(5) by (simp add: fl64_def Let_def abs_less_iff not_le)
qed

lemma fl64_exact:
  assumes "x = of_int k * 2 powi j" "\<bar>k\<bar> < 2 ^ 53" "- 1074 \<le> j" "\<bar>x\<bar> < 2 ^ 1024"
  shows "fl64 x = Finite x"
proof -
  have "round_float 53 (- 1022) x = x"
    using assms(1,2,3) by (intro round_float_exact[where k = k and j = j]) auto
  then show ?thesis using assms(4) by (simp add: fl64_def Let_def abs_less_iff not_le)
qed

lemma fl64_of_int:
  assumes "\<bar>n\<bar> < 2 ^ 53"
  shows "fl64 (of_int n) = Finite (of_int n)"
proof -
  have "rat_of_int \<bar>n\<bar> < of_int (2 ^ 53)" using assms by (simp only: of_int_less_iff)
  then have "\<bar>rat_of_int n\<bar> < 2 ^ 53" by simp
  also have "\<dots> < 2 ^ 1024" by simp
  finally show ?thesis using assms
    by (intro fl64_exact[where k = n and j = 0]) auto
qed

text \<open>Values that need no rounding, and the digits.\<close>

lemma fl64_zero: "fl64 0 = Finite 0"
  by (simp add: fl64_def round_float_def)

lemma fl64_numeral:
  assumes "(numeral k :: int) < 2 ^ 53"
  shows "fl64 (numeral k) = Finite (numeral k)"
  using fl64_of_int[of "numeral k"] assms by simp

lemma float64_of_int_exact:
  assumes "\<bar>i\<bar> < 2 ^ 53"
  shows "float64_of_int i = Finite (of_int i)"
  using fl64_of_int[OF assms] by (simp add: float64_of_int_def)

lemma float32_of_rat_zero: "float32_of_rat 0 = Ok (Finite 0)"
  by (simp add: float32_of_rat_def round_float_def)

lemma float32_of_rat_exact:
  assumes "x = of_int k * 2 powi j" "\<bar>k\<bar> < 2 ^ 24" "- 149 \<le> j" "x < 2 ^ 128"
  shows "float32_of_rat x = Ok (Finite x)"
proof -
  have "round_float 24 (- 126) x = x"
    using assms(1,2,3) by (intro round_float_exact[where k = k and j = j]) auto
  then show ?thesis using assms(4) by (simp add: float32_of_rat_def Let_def not_le)
qed

lemma isDigit_simps:
  "isDigit (CHR ''0'')" "isDigit (CHR ''1'')" "isDigit (CHR ''2'')" "isDigit (CHR ''3'')"
  "isDigit (CHR ''4'')" "isDigit (CHR ''5'')" "isDigit (CHR ''6'')" "isDigit (CHR ''7'')"
  "isDigit (CHR ''8'')" "isDigit (CHR ''9'')"
  "\<not> isDigit (CHR ''.'')" "\<not> isDigit (CHR ''%'')" "\<not> isDigit (CHR ''x'')"
  by (simp_all add: isDigit_def)

section \<open>Facts about the strategies\<close>

text \<open>Signed comparison of words is a linear order.\<close>

lemma not_sless_iff: "\<not> a <s b \<longleftrightarrow> b \<le>s a" for a b :: "'a::len word"
  by (simp add: word_sle_eq word_sless_alt not_less)

text \<open>What the two reconciliation functions return.\<close>

lemma reconcileMax_Ok:
  "reconcileMax hpa = Ok hpa' \<longleftrightarrow>
     (\<exists>m. MinReplicas hpa = Some m \<and>
          hpa' = hpa\<lparr>MaxReplicas := (if MaxReplicas hpa <s m then m else MaxReplicas hpa)\<rparr>)"
  by (cases "MinReplicas hpa") (auto simp: reconcileMax_def)

lemma reconcileMin_Ok:
  "reconcileMin hpa = Ok hpa' \<longleftrightarrow>
     (\<exists>m. MinReplicas hpa = Some m \<and>
          hpa' = hpa\<lparr>MinReplicas := Some (if MaxReplicas hpa <s m then MaxReplicas hpa else m)\<rparr>)"
  by (cases "MinReplicas hpa") (auto simp: reconcileMin_def)

lemma reconcileMax_ordered:
  assumes "reconcileMax hpa = Ok hpa'"
  shows "\<exists>m. MinReplicas hpa' = Some m \<and> m \<le>s MaxReplicas hpa'"
proof -
  from assms obtain m where m: "MinReplicas hpa = Some m"
    and h: "hpa' = hpa\<lparr>MaxReplicas := (if MaxReplicas hpa <s m then m else MaxReplicas hpa)\<rparr>"
    unfolding reconcileMax_Ok by blast
  show ?thesis
  proof (cases "MaxReplicas hpa <s m")
    case True
    then show ?thesis using m h by simp
  next
    case False
    then have "m \<le>s MaxReplicas hpa" by (simp only: not_sless_iff)
    then show ?thesis using m h False by simp
  qed
qed

lemma reconcileMin_ordered:
  assumes "reconcileMin hpa = Ok hpa'"
  shows "\<exists>m. MinReplicas hpa' = Some m \<and> m \<le>s MaxReplicas hpa'"
proof -
  from assms obtain m where m: "MinReplicas hpa = Some m"
    and h: "hpa' = hpa\<lparr>MinReplicas := Some (if MaxReplicas hpa <s m then MaxReplicas hpa else m)\<rparr>"
    unfolding reconcileMin_Ok by blast
  show ?thesis
  proof (cases "MaxReplicas hpa <s m")
    case True
    then show ?thesis using h by simp
  next
    case False
    then have "m \<le>s MaxReplicas hpa" by (simp only: not_sless_iff)
    then show ?thesis using h False by simp
  qed
qed

text \<open>
  The cases of the \<open>switch\<close> in \<open>getStrategy\<close>, one lemma each: what resolving and
  applying does when that case is the first whose condition holds.
\<close>

lemma update_CPUTarget:
  assumes "0 <s CPUTarget program"
  shows "update oor program hpa =
           (case TargetCPUUtilizationPercentage hpa of
              None \<Rightarrow> Panic NilDereference
            | Some t \<Rightarrow> Ok (hpa\<lparr>TargetCPUUtilizationPercentage := Some (ucast (CPUTarget program))\<rparr>))"
  using assms by (simp add: update_def getStrategy_def)

lemma update_Minimum_Number:
  assumes "\<not> 0 <s CPUTarget program" "Number (Minimum program)"
  shows "update oor program hpa =
           (case Atoi (Minimum program) of
              Err e \<Rightarrow> Err e
            | Panic q \<Rightarrow> Panic q
            | Ok num \<Rightarrow> reconcileMax (hpa\<lparr>MinReplicas := Some (ucast num)\<rparr>))"
  using assms
  apply (simp only: update_def getStrategy_def if_True if_False Let_def)
  apply (cases "Atoi (Minimum program)")
    apply (simp_all split: option.splits)
  done

lemma update_Minimum_Percentage:
  assumes "\<not> 0 <s CPUTarget program" "\<not> Number (Minimum program)" "Percentage (Minimum program)"
  shows "update oor program hpa =
           (case ParseFloat32 (butlast (Minimum program)) of
              Err e \<Rightarrow> Err e
            | Panic q \<Rightarrow> Panic q
            | Ok percent \<Rightarrow>
                (case MinReplicas hpa of
                   None \<Rightarrow> Panic NilDereference
                 | Some m \<Rightarrow>
                     reconcileMax (hpa\<lparr>MinReplicas := Some (int32_of_float64 oor
                       (Ceil (fmul (fdiv percent (Finite 100))
                                   (float64_of_int (sint (MaxReplicas hpa))))))\<rparr>)))"
  using assms
  apply (simp only: update_def getStrategy_def if_True if_False Let_def)
  apply (cases "ParseFloat32 (butlast (Minimum program))")
    apply (simp_all split: option.splits)
  done

lemma update_Minimum_Multiply:
  assumes "\<not> 0 <s CPUTarget program" "\<not> Number (Minimum program)"
    "\<not> Percentage (Minimum program)" "Multiply (Minimum program)"
  shows "update oor program hpa =
           (case ParseFloat32 (butlast (Minimum program)) of
              Err e \<Rightarrow> Err e
            | Panic q \<Rightarrow> Panic q
            | Ok multiplier \<Rightarrow>
                (case MinReplicas hpa of
                   None \<Rightarrow> Panic NilDereference
                 | Some m \<Rightarrow>
                     reconcileMax (hpa\<lparr>MinReplicas := Some (int32_of_float64 oor
                       (fmul (float64_of_int (sint m)) multiplier))\<rparr>)))"
  using assms
  apply (simp only: update_def getStrategy_def if_True if_False Let_def)
  apply (cases "ParseFloat32 (butlast (Minimum program))")
    apply (simp_all split: option.splits)
  done

lemma update_Maximum_Number:
  assumes "\<not> 0 <s CPUTarget program" "\<not> Number (Minimum program)"
    "\<not> Percentage (Minimum program)" "\<not> Multiply (Minimum program)"
    "Number (Maximum program)"
  shows "update oor program hpa =
           (case Atoi (Maximum program) of
              Err e \<Rightarrow> Err e
            | Panic q \<Rightarrow> Panic q
            | Ok num \<Rightarrow> reconcileMin (hpa\<lparr>MaxReplicas := ucast num\<rparr>))"
  using assms
  apply (simp only: update_def getStrategy_def if_True if_False Let_def)
  apply (cases "Atoi (Maximum program)")
    apply (simp_all split: option.splits)
  done

lemma update_Maximum_Percentage:
  assumes "\<not> 0 <s CPUTarget program" "\<not> Number (Minimum program)"
    "\<not> Percentage (Minimum program)" "\<not> Multiply (Minimum program)"
    "\<not> Number (Maximum program)" "Percentage (Maximum program)"
  shows "update oor program hpa =
           (case ParseFloat32 (butlast (Maximum program)) of
              Err e \<Rightarrow> Err e
            | Panic q \<Rightarrow> Panic q
            | Ok percent \<Rightarrow>
                reconcileMin (hpa\<lparr>MaxReplicas := int32_of_float64 oor
                  (Ceil (fmul (fdiv percent (Finite 100))
                              (float64_of_int (sint (MaxReplicas hpa)))))\<rparr>))"
  using assms
  apply (simp only: update_def getStrategy_def if_True if_False Let_def)
  apply (cases "ParseFloat32 (butlast (Maximum program))")
    apply (simp_all split: option.splits)
  done

lemma update_Maximum_Multiply:
  assumes "\<not> 0 <s CPUTarget program" "\<not> Number (Minimum program)"
    "\<not> Percentage (Minimum program)" "\<not> Multiply (Minimum program)"
    "\<not> Number (Maximum program)" "\<not> Percentage (Maximum program)" "Multiply (Maximum program)"
  shows "update oor program hpa =
           (case ParseFloat32 (butlast (Maximum program)) of
              Err e \<Rightarrow> Err e
            | Panic q \<Rightarrow> Panic q
            | Ok multiplier \<Rightarrow>
                reconcileMin (hpa\<lparr>MaxReplicas := int32_of_float64 oor
                  (fmul (float64_of_int (sint (MaxReplicas hpa))) multiplier)\<rparr>))"
  using assms
  apply (simp only: update_def getStrategy_def if_True if_False Let_def)
  apply (cases "ParseFloat32 (butlast (Maximum program))")
    apply (simp_all split: option.splits)
  done

lemma update_unrecognized:
  assumes "\<not> 0 <s CPUTarget program" "\<not> Number (Minimum program)"
    "\<not> Percentage (Minimum program)" "\<not> Multiply (Minimum program)"
    "\<not> Number (Maximum program)" "\<not> Percentage (Maximum program)" "\<not> Multiply (Maximum program)"
  shows "update oor program hpa = Err InvalidArguments"
  using assms by (simp only: update_def getStrategy_def if_True if_False result.case)

lemma update_Minimum_shape:
  assumes "\<not> 0 <s CPUTarget program"
    and "Number (Minimum program) \<or> Percentage (Minimum program) \<or> Multiply (Minimum program)"
    and "update oor program hpa = Ok hpa'"
  shows "\<exists>v. reconcileMax (hpa\<lparr>MinReplicas := Some v\<rparr>) = Ok hpa'"
proof -
  consider (n) "Number (Minimum program)"
    | (p) "\<not> Number (Minimum program)" "Percentage (Minimum program)"
    | (m) "\<not> Number (Minimum program)" "\<not> Percentage (Minimum program)" "Multiply (Minimum program)"
    using assms(2) by blast
  then show ?thesis
  proof cases
    case n
    from assms(3) show ?thesis
      unfolding update_Minimum_Number[OF assms(1) n]
      by (auto split: result.splits)
  next
    case p
    from assms(3) show ?thesis
      unfolding update_Minimum_Percentage[OF assms(1) p]
      by (auto split: result.splits option.splits)
  next
    case m
    from assms(3) show ?thesis
      unfolding update_Minimum_Multiply[OF assms(1) m]
      by (auto split: result.splits option.splits)
  qed
qed

lemma update_Maximum_shape:
  assumes "\<not> 0 <s CPUTarget program"
    and "\<not> Number (Minimum program)" "\<not> Percentage (Minimum program)" "\<not> Multiply (Minimum program)"
    and "update oor program hpa = Ok hpa'"
  shows "\<exists>v. reconcileMin (hpa\<lparr>MaxReplicas := v\<rparr>) = Ok hpa'"
proof -
  note c = assms(1-4)
  consider (n) "Number (Maximum program)"
    | (p) "\<not> Number (Maximum program)" "Percentage (Maximum program)"
    | (m) "\<not> Number (Maximum program)" "\<not> Percentage (Maximum program)" "Multiply (Maximum program)"
    | (u) "\<not> Number (Maximum program)" "\<not> Percentage (Maximum program)" "\<not> Multiply (Maximum program)"
    by blast
  then show ?thesis
  proof cases
    case n
    from assms(5) show ?thesis
      unfolding update_Maximum_Number[OF c n]
      by (auto split: result.splits)
  next
    case p
    from assms(5) show ?thesis
      unfolding update_Maximum_Percentage[OF c p]
      by (auto split: result.splits)
  next
    case m
    from assms(5) show ?thesis
      unfolding update_Maximum_Multiply[OF c m]
      by (auto split: result.splits)
  next
    case u
    from assms(5) show ?thesis
      unfolding update_unrecognized[OF c u] by simp
  qed
qed

text \<open>Which flags a resolution reads.\<close>

lemma getStrategy_CPUTarget:
  assumes "0 <s CPUTarget program"
  shows "getStrategy oor program =
           Ok (\<lambda>hpa. case TargetCPUUtilizationPercentage hpa of
                        None \<Rightarrow> Panic NilDereference
                      | Some t \<Rightarrow>
                          Ok (hpa\<lparr>TargetCPUUtilizationPercentage := Some (ucast (CPUTarget program))\<rparr>))"
  using assms by (simp only: getStrategy_def if_True)

lemma getStrategy_ignores_Maximum:
  assumes "\<not> 0 <s CPUTarget program" "recognized (Minimum program)"
  shows "getStrategy oor (program\<lparr>Maximum := b\<rparr>) = getStrategy oor program"
proof -
  have sel: "CPUTarget (program\<lparr>Maximum := b\<rparr>) = CPUTarget program"
    "Minimum (program\<lparr>Maximum := b\<rparr>) = Minimum program" by simp_all
  consider (n) "Number (Minimum program)"
    | (p) "\<not> Number (Minimum program)" "Percentage (Minimum program)"
    | (m) "\<not> Number (Minimum program)" "\<not> Percentage (Minimum program)" "Multiply (Minimum program)"
    using assms(2) by blast
  then show ?thesis
  proof cases
    case n
    with assms(1) show ?thesis
      by (simp only: getStrategy_def sel if_True if_False)
  next
    case p
    with assms(1) show ?thesis
      by (simp only: getStrategy_def sel if_True if_False)
  next
    case m
    with assms(1) show ?thesis
      by (simp only: getStrategy_def sel if_True if_False)
  qed
qed

lemma getStrategy_ignores_unrecognized_Minimum:
  assumes "\<not> 0 <s CPUTarget program" "\<not> recognized (Minimum program)" "\<not> recognized a"
  shows "getStrategy oor (program\<lparr>Minimum := a\<rparr>) = getStrategy oor program"
proof -
  have sel: "CPUTarget (program\<lparr>Minimum := a\<rparr>) = CPUTarget program"
    "Minimum (program\<lparr>Minimum := a\<rparr>) = a"
    "Maximum (program\<lparr>Minimum := a\<rparr>) = Maximum program" by simp_all
  from assms show ?thesis
    by (simp only: getStrategy_def sel if_True if_False de_Morgan_disj simp_thms)
qed

lemma getStrategy_unrecognized:
  assumes "\<not> 0 <s CPUTarget program" "\<not> recognized (Minimum program)" "\<not> recognized (Maximum program)"
  shows "getStrategy oor program = Err InvalidArguments"
  using assms by (simp only: getStrategy_def if_True if_False de_Morgan_disj simp_thms)

lemma getStrategy_CPUTarget_ignores:
  assumes "0 <s CPUTarget program"
  shows "getStrategy oor (program\<lparr>Minimum := a, Maximum := b\<rparr>) = getStrategy oor program"
proof -
  have sel: "CPUTarget (program\<lparr>Minimum := a, Maximum := b\<rparr>) = CPUTarget program" by simp
  from assms show ?thesis
    by (simp only: getStrategy_def sel if_True)
qed

lemma update_Minimum_frame:
  assumes "\<not> 0 <s CPUTarget program" "recognized (Minimum program)"
    and "update oor program hpa = Ok hpa'"
  shows "\<exists>v. hpa' = hpa\<lparr>MinReplicas := Some v,
                         MaxReplicas := (if MaxReplicas hpa <s v then v else MaxReplicas hpa)\<rparr>"
proof -
  from update_Minimum_shape[OF assms] obtain v
    where "reconcileMax (hpa\<lparr>MinReplicas := Some v\<rparr>) = Ok hpa'" ..
  then have "hpa' = hpa\<lparr>MinReplicas := Some v,
                        MaxReplicas := (if MaxReplicas hpa <s v then v else MaxReplicas hpa)\<rparr>"
    by (simp add: reconcileMax_Ok)
  then show ?thesis ..
qed

lemma update_Maximum_frame:
  assumes "\<not> 0 <s CPUTarget program" "\<not> recognized (Minimum program)"
    and "update oor program hpa = Ok hpa'"
  shows "\<exists>v m. MinReplicas hpa = Some m \<and>
           hpa' = hpa\<lparr>MaxReplicas := v, MinReplicas := Some (if v <s m then v else m)\<rparr>"
proof -
  from assms(2) have c: "\<not> Number (Minimum program)" "\<not> Percentage (Minimum program)"
    "\<not> Multiply (Minimum program)" by auto
  from update_Maximum_shape[OF assms(1) c assms(3)] obtain v
    where "reconcileMin (hpa\<lparr>MaxReplicas := v\<rparr>) = Ok hpa'" ..
  then obtain m where "MinReplicas hpa = Some m"
    "hpa' = hpa\<lparr>MaxReplicas := v, MinReplicas := Some (if v <s m then v else m)\<rparr>"
    by (auto simp: reconcileMin_Ok)
  then show ?thesis by blast
qed

text \<open>The resolved closure of each case, and what it does to a record with a nil minimum.\<close>

lemma getStrategy_Minimum_Number:
  assumes "\<not> 0 <s CPUTarget program" "Number (Minimum program)"
  shows "getStrategy oor program =
           (case Atoi (Minimum program) of
              Err e \<Rightarrow> Err e
            | Panic q \<Rightarrow> Panic q
            | Ok num \<Rightarrow> Ok (\<lambda>hpa. reconcileMax (hpa\<lparr>MinReplicas := Some (ucast num)\<rparr>)))"
  using assms by (simp only: getStrategy_def if_True if_False Let_def)

lemma getStrategy_Minimum_Percentage:
  assumes "\<not> 0 <s CPUTarget program" "\<not> Number (Minimum program)" "Percentage (Minimum program)"
  shows "getStrategy oor program =
           (case ParseFloat32 (butlast (Minimum program)) of
              Err e \<Rightarrow> Err e
            | Panic q \<Rightarrow> Panic q
            | Ok percent \<Rightarrow>
                Ok (\<lambda>hpa. case MinReplicas hpa of
                             None \<Rightarrow> Panic NilDereference
                           | Some m \<Rightarrow>
                               reconcileMax (hpa\<lparr>MinReplicas := Some (int32_of_float64 oor
                                 (Ceil (fmul (fdiv percent (Finite 100))
                                             (float64_of_int (sint (MaxReplicas hpa))))))\<rparr>)))"
  using assms by (simp only: getStrategy_def if_True if_False Let_def)

lemma getStrategy_Minimum_Multiply:
  assumes "\<not> 0 <s CPUTarget program" "\<not> Number (Minimum program)"
    "\<not> Percentage (Minimum program)" "Multiply (Minimum program)"
  shows "getStrategy oor program =
           (case ParseFloat32 (butlast (Minimum program)) of
              Err e \<Rightarrow> Err e
            | Panic q \<Rightarrow> Panic q
            | Ok multiplier \<Rightarrow>
                Ok (\<lambda>hpa. case MinReplicas hpa of
                             None \<Rightarrow> Panic NilDereference
                           | Some m \<Rightarrow>
                               reconcileMax (hpa\<lparr>MinReplicas := Some (int32_of_float64 oor
                                 (fmul (float64_of_int (sint m)) multiplier))\<rparr>)))"
  using assms by (simp only: getStrategy_def if_True if_False Let_def)

lemma getStrategy_Maximum_Number:
  assumes "\<not> 0 <s CPUTarget program" "\<not> recognized (Minimum program)" "Number (Maximum program)"
  shows "getStrategy oor program =
           (case Atoi (Maximum program) of
              Err e \<Rightarrow> Err e
            | Panic q \<Rightarrow> Panic q
            | Ok num \<Rightarrow> Ok (\<lambda>hpa. reconcileMin (hpa\<lparr>MaxReplicas := ucast num\<rparr>)))"
  using assms by (simp only: getStrategy_def if_True if_False Let_def de_Morgan_disj simp_thms)

lemma getStrategy_Maximum_Percentage:
  assumes "\<not> 0 <s CPUTarget program" "\<not> recognized (Minimum program)"
    "\<not> Number (Maximum program)" "Percentage (Maximum program)"
  shows "getStrategy oor program =
           (case ParseFloat32 (butlast (Maximum program)) of
              Err e \<Rightarrow> Err e
            | Panic q \<Rightarrow> Panic q
            | Ok percent \<Rightarrow>
                Ok (\<lambda>hpa. reconcileMin (hpa\<lparr>MaxReplicas := int32_of_float64 oor
                      (Ceil (fmul (fdiv percent (Finite 100))
                                  (float64_of_int (sint (MaxReplicas hpa)))))\<rparr>)))"
  using assms by (simp only: getStrategy_def if_True if_False Let_def de_Morgan_disj simp_thms)

lemma getStrategy_Maximum_Multiply:
  assumes "\<not> 0 <s CPUTarget program" "\<not> recognized (Minimum program)"
    "\<not> Number (Maximum program)" "\<not> Percentage (Maximum program)" "Multiply (Maximum program)"
  shows "getStrategy oor program =
           (case ParseFloat32 (butlast (Maximum program)) of
              Err e \<Rightarrow> Err e
            | Panic q \<Rightarrow> Panic q
            | Ok multiplier \<Rightarrow>
                Ok (\<lambda>hpa. reconcileMin (hpa\<lparr>MaxReplicas := int32_of_float64 oor
                      (fmul (float64_of_int (sint (MaxReplicas hpa))) multiplier)\<rparr>)))"
  using assms by (simp only: getStrategy_def if_True if_False Let_def de_Morgan_disj simp_thms)


lemma update_resolved:
  assumes "getStrategy oor program = Ok cal"
  shows "update oor program hpa = cal hpa"
  using assms by (simp add: update_def)

lemma resolved_on_nil_minimum:
  assumes nil: "MinReplicas hpa = None"
    and cpu: "\<not> 0 <s CPUTarget program" and num: "\<not> Number (Minimum program)"
    and ok: "getStrategy oor program = Ok cal"
  shows "cal hpa = Panic NilDereference"
proof -
  consider (p) "Percentage (Minimum program)"
    | (m) "\<not> Percentage (Minimum program)" "Multiply (Minimum program)"
    | (xn) "\<not> recognized (Minimum program)" "Number (Maximum program)"
    | (xp) "\<not> recognized (Minimum program)" "\<not> Number (Maximum program)" "Percentage (Maximum program)"
    | (xm) "\<not> recognized (Minimum program)" "\<not> Number (Maximum program)"
        "\<not> Percentage (Maximum program)" "Multiply (Maximum program)"
    | (u) "\<not> recognized (Minimum program)" "\<not> recognized (Maximum program)"
    using num by blast
  then show ?thesis
  proof cases
    case p
    from ok nil show ?thesis
      unfolding getStrategy_Minimum_Percentage[OF cpu num p]
      by (cases "ParseFloat32 (butlast (Minimum program))") auto
  next
    case m
    from ok nil show ?thesis
      unfolding getStrategy_Minimum_Multiply[OF cpu num m]
      by (cases "ParseFloat32 (butlast (Minimum program))") auto
  next
    case xn
    from ok nil show ?thesis
      unfolding getStrategy_Maximum_Number[OF cpu xn]
      by (cases "Atoi (Maximum program)") (auto simp: reconcileMin_def)
  next
    case xp
    from ok nil show ?thesis
      unfolding getStrategy_Maximum_Percentage[OF cpu xp]
      by (cases "ParseFloat32 (butlast (Maximum program))") (auto simp: reconcileMin_def)
  next
    case xm
    from ok nil show ?thesis
      unfolding getStrategy_Maximum_Multiply[OF cpu xm]
      by (cases "ParseFloat32 (butlast (Maximum program))") (auto simp: reconcileMin_def)
  next
    case u
    from ok show ?thesis
      unfolding getStrategy_unrecognized[OF cpu u] by simp
  qed
qed

lemma absolute_minimum_on_nil:
  assumes cpu: "\<not> 0 <s CPUTarget program" and num: "Number (Minimum program)"
    and ok: "getStrategy oor program = Ok cal"
  shows "\<exists>v. cal hpa = Ok (hpa\<lparr>MinReplicas := Some v,
                                 MaxReplicas := (if MaxReplicas hpa <s v then v else MaxReplicas hpa)\<rparr>)"
  using ok unfolding getStrategy_Minimum_Number[OF cpu num]
  by (cases "Atoi (Minimum program)") (auto simp: reconcileMax_def)

text \<open>Evaluating the model on concrete flags and records.\<close>

lemmas string_eval = Number_def Percentage_def Multiply_def isNumeric_def isDigit_def
  ParseFloat32_def Atoi_def atoiDigits_def decimal_def digitVal_def

lemmas number_eval = int32_of_float64_def trunc_def word_sless_alt word_sle_eq
  float64_of_int_exact fl64_zero float32_of_rat_zero

lemma zero_multiplier_example:
  "update indefinite32 \<lparr>Minimum = '''', Maximum = ''0x'', CPUTarget = 0\<rparr>
     \<lparr>MinReplicas = Some 2, MaxReplicas = 10, TargetCPUUtilizationPercentage = None\<rparr>
   = Ok \<lparr>MinReplicas = Some 0, MaxReplicas = 0, TargetCPUUtilizationPercentage = None\<rparr>"
  by (simp add: update_def getStrategy_def string_eval number_eval reconcileMin_def)

lemma absolute_minimum_example:
  "update indefinite32 \<lparr>Minimum = ''5'', Maximum = ''2x'', CPUTarget = 0\<rparr>
     \<lparr>MinReplicas = Some 1, MaxReplicas = 3, TargetCPUUtilizationPercentage = None\<rparr>
   = Ok \<lparr>MinReplicas = Some 5, MaxReplicas = 5, TargetCPUUtilizationPercentage = None\<rparr>"
  by (simp add: update_def getStrategy_def string_eval number_eval reconcileMax_def)

section \<open>The claims about the strategies\<close>

text \<open>
  C1. For every record and every resolved strategy that targets the minimum or the
  maximum (absolute, percentage or multiplier), the record the strategy returns has
  \<open>minimum \<le> maximum\<close> (signed comparison): the multiplier \<open>0\<close>, the percentage \<open>0\<close>
  and a record whose maximum is \<open>0\<close> are instances. The strategy for the CPU target
  is the case \<open>0 <s CPUTarget program\<close>, which the claim leaves out.
\<close>

theorem minimum_le_maximum_after_strategy:
  assumes "\<not> 0 <s CPUTarget program" "update oor program hpa = Ok hpa'"
  shows "\<exists>m. MinReplicas hpa' = Some m \<and> m \<le>s MaxReplicas hpa'"
proof (cases "recognized (Minimum program)")
  case True
  from update_Minimum_shape[OF assms(1) True assms(2)] show ?thesis
    by (blast dest: reconcileMax_ordered)
next
  case False
  then have "\<not> Number (Minimum program)" "\<not> Percentage (Minimum program)"
    "\<not> Multiply (Minimum program)"
    by auto
  from update_Maximum_shape[OF assms(1) this assms(2)] show ?thesis
    by (blast dest: reconcileMin_ordered)
qed

theorem minimum_le_maximum_after_strategy_witness:
  "\<not> 0 <s CPUTarget \<lparr>Minimum = '''', Maximum = ''0x'', CPUTarget = 0\<rparr> \<and>
   update indefinite32 \<lparr>Minimum = '''', Maximum = ''0x'', CPUTarget = 0\<rparr>
     \<lparr>MinReplicas = Some 2, MaxReplicas = 10, TargetCPUUtilizationPercentage = None\<rparr>
     = Ok \<lparr>MinReplicas = Some 0, MaxReplicas = 0, TargetCPUUtilizationPercentage = None\<rparr> \<and>
   (\<exists>m. MinReplicas \<lparr>MinReplicas = Some 0, MaxReplicas = 0,
                       TargetCPUUtilizationPercentage = None\<rparr> = Some m \<and>
        m \<le>s MaxReplicas \<lparr>MinReplicas = Some 0, MaxReplicas = 0,
                            TargetCPUUtilizationPercentage = None\<rparr>)"
proof -
  have a: "\<not> 0 <s CPUTarget \<lparr>Minimum = '''', Maximum = ''0x'', CPUTarget = 0\<rparr>"
    by (simp add: word_sless_alt)
  note b = zero_multiplier_example
  from a b minimum_le_maximum_after_strategy[OF a b] show ?thesis by blast
qed

text \<open>
  C10. On a record whose minimum pointer is nil, both reconciliation functions panic,
  and so does every resolved strategy except two: the strategy for an absolute minimum
  replaces the pointer before it reconciles and returns normally, and the strategy for
  the CPU target never reads the minimum (it returns normally when the CPU-target
  pointer is set). The percentage and multiplier strategies for the minimum and the
  three strategies for the maximum all end in a nil dereference.
\<close>

theorem nil_minimum_outcomes:
  assumes "MinReplicas hpa = None"
  shows "reconcileMax hpa = Panic NilDereference \<and>
         reconcileMin hpa = Panic NilDereference \<and>
         (\<not> 0 <s CPUTarget program \<and> \<not> Number (Minimum program) \<and>
            getStrategy oor program = Ok cal \<longrightarrow> cal hpa = Panic NilDereference) \<and>
         (\<not> 0 <s CPUTarget program \<and> Number (Minimum program) \<and>
            getStrategy oor program = Ok cal \<longrightarrow>
            (\<exists>v. cal hpa = Ok (hpa\<lparr>MinReplicas := Some v,
                 MaxReplicas := (if MaxReplicas hpa <s v then v else MaxReplicas hpa)\<rparr>))) \<and>
         (0 <s CPUTarget program \<and> getStrategy oor program = Ok cal \<and>
            TargetCPUUtilizationPercentage hpa = Some t \<longrightarrow>
            cal hpa = Ok (hpa\<lparr>TargetCPUUtilizationPercentage := Some (ucast (CPUTarget program))\<rparr>))"
proof (intro conjI impI)
  show "reconcileMax hpa = Panic NilDereference" using assms by (simp add: reconcileMax_def)
  show "reconcileMin hpa = Panic NilDereference" using assms by (simp add: reconcileMin_def)
next
  assume "\<not> 0 <s CPUTarget program \<and> \<not> Number (Minimum program) \<and> getStrategy oor program = Ok cal"
  then show "cal hpa = Panic NilDereference"
    using resolved_on_nil_minimum[OF assms] by blast
next
  assume "\<not> 0 <s CPUTarget program \<and> Number (Minimum program) \<and> getStrategy oor program = Ok cal"
  then show "\<exists>v. cal hpa = Ok (hpa\<lparr>MinReplicas := Some v,
                 MaxReplicas := (if MaxReplicas hpa <s v then v else MaxReplicas hpa)\<rparr>)"
    using absolute_minimum_on_nil by blast
next
  assume "0 <s CPUTarget program \<and> getStrategy oor program = Ok cal \<and>
            TargetCPUUtilizationPercentage hpa = Some t"
  then show "cal hpa = Ok (hpa\<lparr>TargetCPUUtilizationPercentage := Some (ucast (CPUTarget program))\<rparr>)"
    using getStrategy_CPUTarget[of program oor] by auto
qed

theorem nil_minimum_outcomes_witness:
  "MinReplicas \<lparr>MinReplicas = None, MaxReplicas = 3, TargetCPUUtilizationPercentage = Some 50\<rparr> = None \<and>
   \<not> 0 <s CPUTarget \<lparr>Minimum = ''50%'', Maximum = '''', CPUTarget = 0\<rparr> \<and>
   \<not> Number (Minimum \<lparr>Minimum = ''50%'', Maximum = '''', CPUTarget = 0\<rparr>) \<and>
   update indefinite32 \<lparr>Minimum = ''50%'', Maximum = '''', CPUTarget = 0\<rparr>
     \<lparr>MinReplicas = None, MaxReplicas = 3, TargetCPUUtilizationPercentage = Some 50\<rparr>
     = Panic NilDereference"
proof -
  let ?h = "\<lparr>MinReplicas = None, MaxReplicas = 3, TargetCPUUtilizationPercentage = Some 50\<rparr>"
  let ?p = "\<lparr>Minimum = ''50%'', Maximum = '''', CPUTarget = 0\<rparr>"
  have h: "MinReplicas ?h = None" by simp
  have p: "\<not> 0 <s CPUTarget ?p" "\<not> Number (Minimum ?p)" "Percentage (Minimum ?p)"
    by (simp_all add: word_sless_alt string_eval)
  have "ParseFloat32 (butlast (Minimum ?p)) = Ok (Finite 50)"
    using float32_of_rat_exact[of 50 50 0] by (simp add: string_eval)
  then obtain cal where cal: "getStrategy indefinite32 ?p = Ok cal"
    unfolding getStrategy_Minimum_Percentage[OF p] by simp
  from nil_minimum_outcomes[OF h, of ?p indefinite32 cal] p cal
  have "cal ?h = Panic NilDereference" by blast
  with cal have "update indefinite32 ?p ?h = Panic NilDereference"
    by (simp add: update_resolved)
  with h p show ?thesis by blast
qed

theorem absolute_minimum_survives_nil_minimum:
  "MinReplicas \<lparr>MinReplicas = None, MaxReplicas = 3, TargetCPUUtilizationPercentage = Some 50\<rparr> = None \<and>
   update indefinite32 \<lparr>Minimum = ''5'', Maximum = '''', CPUTarget = 0\<rparr>
     \<lparr>MinReplicas = None, MaxReplicas = 3, TargetCPUUtilizationPercentage = Some 50\<rparr>
   = Ok \<lparr>MinReplicas = Some 5, MaxReplicas = 5, TargetCPUUtilizationPercentage = Some 50\<rparr>"
  by (simp add: update_def getStrategy_def string_eval number_eval reconcileMax_def)

text \<open>Conversions between \<open>int32\<close> and \<open>float64\<close> are exact in both directions.\<close>

lemma fl64_one: "fl64 1 = Finite 1"
  using fl64_of_int[of 1] by simp

lemma int32_of_float64_of_int:
  assumes "- (2 ^ 31) \<le> i" "i < 2 ^ 31"
  shows "int32_of_float64 oor (Finite (of_int i)) = word_of_int i"
  using assms by (simp add: int32_of_float64_def trunc_def)

lemma full_percentage_of_int:
  assumes "\<bar>i\<bar> < 2 ^ 53"
  shows "Ceil (fmul (fdiv (Finite 100) (Finite 100)) (float64_of_int i)) = Finite (of_int i)"
  using fl64_of_int[OF assms] by (simp add: fl64_one float64_of_int_exact[OF assms])

lemma ParseFloat32_100: "ParseFloat32 ''100'' = Ok (Finite 100)"
  using float32_of_rat_exact[of 100 100 0] by (simp add: string_eval)

lemma full_percentage_of_maximum:
  fixes w :: int32
  shows "int32_of_float64 oor
           (Ceil (fmul (fdiv (Finite 100) (Finite 100)) (float64_of_int (sint w)))) = w"
proof -
  have b: "- (2 ^ 31) \<le> sint w" "sint w < 2 ^ 31"
    using sint_ge[of w] sint_lt[of w] by simp_all
  then have "\<bar>sint w\<bar> < 2 ^ 53" by simp
  then have "Ceil (fmul (fdiv (Finite 100) (Finite 100)) (float64_of_int (sint w)))
               = Finite (of_int (sint w))"
    by (rule full_percentage_of_int)
  then have "int32_of_float64 oor
               (Ceil (fmul (fdiv (Finite 100) (Finite 100)) (float64_of_int (sint w))))
             = word_of_int (sint w)"
    by (simp only: int32_of_float64_of_int[OF b])
  then show ?thesis by simp
qed

text \<open>
  C6. With the maximum expression \<open>100%\<close> (and no CPU target or recognized minimum
  before it), every application returns the record's maximum as it was: two
  applications in succession give the same maximum after the first and after the
  second, and the second changes nothing at all.
\<close>

theorem full_percentage_is_fixed_point:
  assumes "\<not> 0 <s CPUTarget program" "\<not> recognized (Minimum program)"
    and "Maximum program = ''100%''"
    and "update oor program hpa = Ok hpa1"
  shows "MaxReplicas hpa1 = MaxReplicas hpa \<and> update oor program hpa1 = Ok hpa1"
proof -
  have c: "\<not> Number (Minimum program)" "\<not> Percentage (Minimum program)"
    "\<not> Multiply (Minimum program)" using assms(2) by auto
  have e: "\<not> Number (Maximum program)" "Percentage (Maximum program)"
    by (simp_all add: assms(3) string_eval)
  have p: "ParseFloat32 (butlast (Maximum program)) = Ok (Finite 100)"
    by (simp add: assms(3) ParseFloat32_100)
  have u: "update oor program h = reconcileMin h" for h
    unfolding update_Maximum_Percentage[OF assms(1) c e] p
    by (simp only: result.case full_percentage_of_maximum) simp
  from assms(4) have r: "reconcileMin hpa = Ok hpa1" by (simp only: u)
  then obtain m where m: "MinReplicas hpa = Some m"
    and h1: "hpa1 = hpa\<lparr>MinReplicas := Some (if MaxReplicas hpa <s m then MaxReplicas hpa else m)\<rparr>"
    unfolding reconcileMin_Ok by blast
  have "MaxReplicas hpa1 = MaxReplicas hpa" using h1 by simp
  moreover have "reconcileMin hpa1 = Ok hpa1"
    using h1 by (simp add: reconcileMin_def word_sless_alt)
  ultimately show ?thesis by (simp only: u simp_thms)
qed

theorem full_percentage_is_fixed_point_witness:
  "\<not> 0 <s CPUTarget \<lparr>Minimum = ''abc'', Maximum = ''100%'', CPUTarget = 0\<rparr> \<and>
   \<not> recognized (Minimum \<lparr>Minimum = ''abc'', Maximum = ''100%'', CPUTarget = 0\<rparr>) \<and>
   update indefinite32 \<lparr>Minimum = ''abc'', Maximum = ''100%'', CPUTarget = 0\<rparr>
     \<lparr>MinReplicas = Some 7, MaxReplicas = 3, TargetCPUUtilizationPercentage = None\<rparr>
     = Ok \<lparr>MinReplicas = Some 3, MaxReplicas = 3, TargetCPUUtilizationPercentage = None\<rparr> \<and>
   update indefinite32 \<lparr>Minimum = ''abc'', Maximum = ''100%'', CPUTarget = 0\<rparr>
     \<lparr>MinReplicas = Some 3, MaxReplicas = 3, TargetCPUUtilizationPercentage = None\<rparr>
     = Ok \<lparr>MinReplicas = Some 3, MaxReplicas = 3, TargetCPUUtilizationPercentage = None\<rparr>"
proof -
  let ?p = "\<lparr>Minimum = ''abc'', Maximum = ''100%'', CPUTarget = 0\<rparr>"
  let ?h = "\<lparr>MinReplicas = Some (7::int32), MaxReplicas = 3, TargetCPUUtilizationPercentage = None\<rparr>"
  have p: "\<not> 0 <s CPUTarget ?p" "\<not> recognized (Minimum ?p)" "Maximum ?p = ''100%''"
    by (simp_all add: word_sless_alt string_eval)
  have c: "\<not> Number (Minimum ?p)" "\<not> Percentage (Minimum ?p)" "\<not> Multiply (Minimum ?p)"
    "\<not> Number (Maximum ?p)" "Percentage (Maximum ?p)"
    by (simp_all add: string_eval)
  have a: "update indefinite32 ?p ?h
     = Ok \<lparr>MinReplicas = Some 3, MaxReplicas = 3, TargetCPUUtilizationPercentage = None\<rparr>"
  proof -
    have "update indefinite32 ?p ?h = reconcileMin ?h"
      unfolding update_Maximum_Percentage[OF p(1) c]
      using full_percentage_of_maximum[of indefinite32 "MaxReplicas ?h"]
      by (simp add: ParseFloat32_100)
    then show ?thesis by (simp add: reconcileMin_def word_sless_alt)
  qed
  from p(1,2) a full_percentage_is_fixed_point[OF p a] show ?thesis by blast
qed


lemma ceiling_rat_numeral_divide:
  "\<lceil>numeral a / numeral b :: rat\<rceil> = - (- numeral a div numeral b)"
  using floor_divide_of_int_eq[of "- numeral a" "numeral b", where ?'a = rat]
  by (simp add: ceiling_def)


lemma ParseFloat32_7: "ParseFloat32 ''7'' = Ok (Finite 7)"
  using float32_of_rat_exact[of 7 7 0] by (simp add: string_eval)


lemma seven_hundredths: "fdiv (Finite 7) (Finite 100) = Finite (5044031582654956 / 2 ^ 56)"
  using fl64_eqI[of "- 4" "7 / 100" 5044031582654956] by simp

lemma seven_hundredths_of_hundred:
  "fmul (Finite (5044031582654956 / 2 ^ 56)) (float64_of_int 100)
     = Finite (7881299347898369 / 2 ^ 50)"
  using fl64_eqI[of 2 "5044031582654956 / 2 ^ 56 * 100" 7881299347898369]
  by (simp add: float64_of_int_exact)

lemma seven_percent_of_hundred:
  "int32_of_float64 oor
     (Ceil (fmul (fdiv (Finite 7) (Finite 100)) (float64_of_int (sint (100 :: int32))))) = 8"
proof -
  have s: "sint (100 :: int32) = 100" by simp
  have c: "\<lceil>7881299347898369 / 2 ^ 50 :: rat\<rceil> = 8"
    by (rule ceiling_unique) simp_all
  have "Ceil (fmul (fdiv (Finite 7) (Finite 100)) (float64_of_int (sint (100 :: int32))))
          = Finite 8"
    by (simp only: s seven_hundredths seven_hundredths_of_hundred Ceil.simps c) simp
  then show ?thesis by (simp add: int32_of_float64_def trunc_def)
qed




text \<open>Three more expressions and their values.\<close>

lemma ParseFloat32_50: "ParseFloat32 ''50'' = Ok (Finite 50)"
  using float32_of_rat_exact[of 50 50 0] by (simp add: string_eval)

lemma ParseFloat32_2: "ParseFloat32 ''2'' = Ok (Finite 2)"
  using float32_of_rat_exact[of 2 2 0] by (simp add: string_eval)

lemma ParseFloat32_0: "ParseFloat32 ''0'' = Ok (Finite 0)"
  by (simp add: string_eval float32_of_rat_zero)

lemma half_of_hundred:
  "int32_of_float64 oor
     (Ceil (fmul (fdiv (Finite 50) (Finite 100)) (float64_of_int (sint (100 :: int32))))) = 50"
proof -
  have h: "fl64 (1 / 2) = Finite (1 / 2)"
    by (rule fl64_exact[where k = 1 and j = "- 1"]) simp_all
  have "Ceil (fmul (fdiv (Finite 50) (Finite 100)) (float64_of_int (sint (100 :: int32))))
          = Finite 50"
    by (simp add: h float64_of_int_exact fl64_numeral)
  then show ?thesis by (simp add: int32_of_float64_def trunc_def)
qed

lemma twice_three:
  "int32_of_float64 oor (fmul (float64_of_int (sint (3 :: int32))) (Finite 2)) = 6"
  by (simp add: float64_of_int_exact fl64_numeral int32_of_float64_def trunc_def)

lemma zero_times_ten:
  "int32_of_float64 oor (fmul (float64_of_int (sint (10 :: int32))) (Finite 0)) = 0"
  by (simp add: float64_of_int_exact fl64_zero int32_of_float64_def trunc_def)

text \<open>
  C4. Reconciliation changes only the field that was not the target. \<open>reconcileMax\<close>
  returns the record with, at most, the maximum replaced: by the minimum when the
  minimum exceeds it. \<open>reconcileMin\<close> returns the record with, at most, the minimum
  replaced: by the maximum when the minimum exceeds it. Each of the six strategies
  returns the record in which the target holds exactly the value the strategy computed
  for it (the number, the percentage of the maximum, the multiple of the old value) and
  the other bound is that value when the two would cross and is unchanged otherwise:
  the value just set is never overwritten.
\<close>

theorem reconciliation_changes_only_other_field:
  "(reconcileMax hpa = Ok hpa' \<longrightarrow>
      (\<exists>m. MinReplicas hpa = Some m \<and>
           hpa' = hpa\<lparr>MaxReplicas := (if MaxReplicas hpa <s m then m else MaxReplicas hpa)\<rparr>)) \<and>
   (reconcileMin hpa = Ok hpa' \<longrightarrow>
      (\<exists>m. MinReplicas hpa = Some m \<and>
           hpa' = hpa\<lparr>MinReplicas := Some (if MaxReplicas hpa <s m then MaxReplicas hpa else m)\<rparr>)) \<and>
   (\<not> 0 <s CPUTarget program \<and> Number (Minimum program) \<and>
      Atoi (Minimum program) = Ok num \<longrightarrow>
      update oor program hpa =
        Ok (hpa\<lparr>MinReplicas := Some (ucast num),
                MaxReplicas := (if MaxReplicas hpa <s ucast num then ucast num
                                else MaxReplicas hpa)\<rparr>)) \<and>
   (\<not> 0 <s CPUTarget program \<and> \<not> Number (Minimum program) \<and>
      Percentage (Minimum program) \<and>
      ParseFloat32 (butlast (Minimum program)) = Ok f \<and> MinReplicas hpa = Some m \<longrightarrow>
      update oor program hpa =
        (let v = int32_of_float64 oor
                   (Ceil (fmul (fdiv f (Finite 100)) (float64_of_int (sint (MaxReplicas hpa)))))
         in Ok (hpa\<lparr>MinReplicas := Some v,
                    MaxReplicas := (if MaxReplicas hpa <s v then v else MaxReplicas hpa)\<rparr>))) \<and>
   (\<not> 0 <s CPUTarget program \<and> \<not> Number (Minimum program) \<and>
      \<not> Percentage (Minimum program) \<and> Multiply (Minimum program) \<and>
      ParseFloat32 (butlast (Minimum program)) = Ok f \<and> MinReplicas hpa = Some m \<longrightarrow>
      update oor program hpa =
        (let v = int32_of_float64 oor (fmul (float64_of_int (sint m)) f)
         in Ok (hpa\<lparr>MinReplicas := Some v,
                    MaxReplicas := (if MaxReplicas hpa <s v then v else MaxReplicas hpa)\<rparr>))) \<and>
   (\<not> 0 <s CPUTarget program \<and> \<not> recognized (Minimum program) \<and>
      Number (Maximum program) \<and>
      Atoi (Maximum program) = Ok num \<and> MinReplicas hpa = Some m \<longrightarrow>
      update oor program hpa =
        Ok (hpa\<lparr>MaxReplicas := ucast num,
                MinReplicas := Some (if ucast num <s m then ucast num else m)\<rparr>)) \<and>
   (\<not> 0 <s CPUTarget program \<and> \<not> recognized (Minimum program) \<and>
      \<not> Number (Maximum program) \<and> Percentage (Maximum program) \<and>
      ParseFloat32 (butlast (Maximum program)) = Ok f \<and> MinReplicas hpa = Some m \<longrightarrow>
      update oor program hpa =
        (let v = int32_of_float64 oor
                   (Ceil (fmul (fdiv f (Finite 100)) (float64_of_int (sint (MaxReplicas hpa)))))
         in Ok (hpa\<lparr>MaxReplicas := v, MinReplicas := Some (if v <s m then v else m)\<rparr>))) \<and>
   (\<not> 0 <s CPUTarget program \<and> \<not> recognized (Minimum program) \<and>
      \<not> Number (Maximum program) \<and> \<not> Percentage (Maximum program) \<and>
      Multiply (Maximum program) \<and>
      ParseFloat32 (butlast (Maximum program)) = Ok f \<and> MinReplicas hpa = Some m \<longrightarrow>
      update oor program hpa =
        (let v = int32_of_float64 oor (fmul (float64_of_int (sint (MaxReplicas hpa))) f)
         in Ok (hpa\<lparr>MaxReplicas := v, MinReplicas := Some (if v <s m then v else m)\<rparr>)))"
proof (intro conjI impI)
  assume "reconcileMax hpa = Ok hpa'"
  then show "\<exists>m. MinReplicas hpa = Some m \<and>
           hpa' = hpa\<lparr>MaxReplicas := (if MaxReplicas hpa <s m then m else MaxReplicas hpa)\<rparr>"
    by (simp only: reconcileMax_Ok)
next
  assume "reconcileMin hpa = Ok hpa'"
  then show "\<exists>m. MinReplicas hpa = Some m \<and>
           hpa' = hpa\<lparr>MinReplicas := Some (if MaxReplicas hpa <s m then MaxReplicas hpa else m)\<rparr>"
    by (simp only: reconcileMin_Ok)
next
  assume a: "\<not> 0 <s CPUTarget program \<and> Number (Minimum program) \<and>
      Atoi (Minimum program) = Ok num"
  then have c: "\<not> 0 <s CPUTarget program" "Number (Minimum program)"
    and p: "Atoi (Minimum program) = Ok num" by simp_all
  show "update oor program hpa =
        Ok (hpa\<lparr>MinReplicas := Some (ucast num),
                MaxReplicas := (if MaxReplicas hpa <s ucast num then ucast num
                                else MaxReplicas hpa)\<rparr>)"
    unfolding update_Minimum_Number[OF c] p by (simp add: reconcileMax_def)
next
  assume a: "\<not> 0 <s CPUTarget program \<and> \<not> Number (Minimum program) \<and>
      Percentage (Minimum program) \<and>
      ParseFloat32 (butlast (Minimum program)) = Ok f \<and> MinReplicas hpa = Some m"
  then have c: "\<not> 0 <s CPUTarget program" "\<not> Number (Minimum program)"
    "Percentage (Minimum program)"
    and p: "ParseFloat32 (butlast (Minimum program)) = Ok f"
    and m: "MinReplicas hpa = Some m" by simp_all
  show "update oor program hpa =
        (let v = int32_of_float64 oor
                   (Ceil (fmul (fdiv f (Finite 100)) (float64_of_int (sint (MaxReplicas hpa)))))
         in Ok (hpa\<lparr>MinReplicas := Some v,
                    MaxReplicas := (if MaxReplicas hpa <s v then v else MaxReplicas hpa)\<rparr>))"
    unfolding update_Minimum_Percentage[OF c] p m
    by (simp add: reconcileMax_def Let_def)
next
  assume a: "\<not> 0 <s CPUTarget program \<and> \<not> Number (Minimum program) \<and>
      \<not> Percentage (Minimum program) \<and> Multiply (Minimum program) \<and>
      ParseFloat32 (butlast (Minimum program)) = Ok f \<and> MinReplicas hpa = Some m"
  then have c: "\<not> 0 <s CPUTarget program" "\<not> Number (Minimum program)"
    "\<not> Percentage (Minimum program)" "Multiply (Minimum program)"
    and p: "ParseFloat32 (butlast (Minimum program)) = Ok f"
    and m: "MinReplicas hpa = Some m" by simp_all
  show "update oor program hpa =
        (let v = int32_of_float64 oor (fmul (float64_of_int (sint m)) f)
         in Ok (hpa\<lparr>MinReplicas := Some v,
                    MaxReplicas := (if MaxReplicas hpa <s v then v else MaxReplicas hpa)\<rparr>))"
    unfolding update_Minimum_Multiply[OF c] p m
    by (simp add: reconcileMax_def Let_def)
next
  assume a: "\<not> 0 <s CPUTarget program \<and> \<not> recognized (Minimum program) \<and>
      Number (Maximum program) \<and>
      Atoi (Maximum program) = Ok num \<and> MinReplicas hpa = Some m"
  then have c: "\<not> 0 <s CPUTarget program" "\<not> Number (Minimum program)"
    "\<not> Percentage (Minimum program)" "\<not> Multiply (Minimum program)"
    "Number (Maximum program)"
    and p: "Atoi (Maximum program) = Ok num"
    and m: "MinReplicas hpa = Some m" by simp_all
  show "update oor program hpa =
        Ok (hpa\<lparr>MaxReplicas := ucast num,
                MinReplicas := Some (if ucast num <s m then ucast num else m)\<rparr>)"
    unfolding update_Maximum_Number[OF c] p
    using m by (simp add: reconcileMin_def)
next
  assume a: "\<not> 0 <s CPUTarget program \<and> \<not> recognized (Minimum program) \<and>
      \<not> Number (Maximum program) \<and> Percentage (Maximum program) \<and>
      ParseFloat32 (butlast (Maximum program)) = Ok f \<and> MinReplicas hpa = Some m"
  then have c: "\<not> 0 <s CPUTarget program" "\<not> Number (Minimum program)"
    "\<not> Percentage (Minimum program)" "\<not> Multiply (Minimum program)"
    "\<not> Number (Maximum program)" "Percentage (Maximum program)"
    and p: "ParseFloat32 (butlast (Maximum program)) = Ok f"
    and m: "MinReplicas hpa = Some m" by simp_all
  show "update oor program hpa =
        (let v = int32_of_float64 oor
                   (Ceil (fmul (fdiv f (Finite 100)) (float64_of_int (sint (MaxReplicas hpa)))))
         in Ok (hpa\<lparr>MaxReplicas := v, MinReplicas := Some (if v <s m then v else m)\<rparr>))"
    unfolding update_Maximum_Percentage[OF c] p
    using m by (simp add: reconcileMin_def Let_def)
next
  assume a: "\<not> 0 <s CPUTarget program \<and> \<not> recognized (Minimum program) \<and>
      \<not> Number (Maximum program) \<and> \<not> Percentage (Maximum program) \<and>
      Multiply (Maximum program) \<and>
      ParseFloat32 (butlast (Maximum program)) = Ok f \<and> MinReplicas hpa = Some m"
  then have c: "\<not> 0 <s CPUTarget program" "\<not> Number (Minimum program)"
    "\<not> Percentage (Minimum program)" "\<not> Multiply (Minimum program)"
    "\<not> Number (Maximum program)" "\<not> Percentage (Maximum program)"
    "Multiply (Maximum program)"
    and p: "ParseFloat32 (butlast (Maximum program)) = Ok f"
    and m: "MinReplicas hpa = Some m" by simp_all
  show "update oor program hpa =
        (let v = int32_of_float64 oor (fmul (float64_of_int (sint (MaxReplicas hpa))) f)
         in Ok (hpa\<lparr>MaxReplicas := v, MinReplicas := Some (if v <s m then v else m)\<rparr>))"
    unfolding update_Maximum_Multiply[OF c] p
    using m by (simp add: reconcileMin_def Let_def)
qed

theorem reconciliation_changes_only_other_field_witness:
  "reconcileMax \<lparr>MinReplicas = Some 7, MaxReplicas = 3, TargetCPUUtilizationPercentage = None\<rparr>
     = Ok \<lparr>MinReplicas = Some 7, MaxReplicas = 7, TargetCPUUtilizationPercentage = None\<rparr> \<and>
   (\<exists>m. MinReplicas \<lparr>MinReplicas = Some 7, MaxReplicas = 3,
                       TargetCPUUtilizationPercentage = None\<rparr> = Some m \<and>
        \<lparr>MinReplicas = Some 7, MaxReplicas = 7, TargetCPUUtilizationPercentage = None\<rparr> =
        \<lparr>MinReplicas = Some 7, MaxReplicas = 3, TargetCPUUtilizationPercentage = None\<rparr>
          \<lparr>MaxReplicas := (if 3 <s m then m else 3)\<rparr>) \<and>
   reconcileMin \<lparr>MinReplicas = Some 7, MaxReplicas = 3, TargetCPUUtilizationPercentage = None\<rparr>
     = Ok \<lparr>MinReplicas = Some 3, MaxReplicas = 3, TargetCPUUtilizationPercentage = None\<rparr> \<and>
   (\<exists>m. MinReplicas \<lparr>MinReplicas = Some 7, MaxReplicas = 3,
                       TargetCPUUtilizationPercentage = None\<rparr> = Some m \<and>
        \<lparr>MinReplicas = Some 3, MaxReplicas = 3, TargetCPUUtilizationPercentage = None\<rparr> =
        \<lparr>MinReplicas = Some 7, MaxReplicas = 3, TargetCPUUtilizationPercentage = None\<rparr>
          \<lparr>MinReplicas := Some (if 3 <s m then 3 else m)\<rparr>) \<and>
   Atoi ''5'' = Ok 5 \<and>
   update indefinite32 \<lparr>Minimum = ''5'', Maximum = ''2x'', CPUTarget = 0\<rparr>
     \<lparr>MinReplicas = Some 1, MaxReplicas = 3, TargetCPUUtilizationPercentage = None\<rparr>
     = Ok \<lparr>MinReplicas = Some 5, MaxReplicas = 5, TargetCPUUtilizationPercentage = None\<rparr> \<and>
   ParseFloat32 ''50'' = Ok (Finite 50) \<and>
   update indefinite32 \<lparr>Minimum = ''50%'', Maximum = ''2x'', CPUTarget = 0\<rparr>
     \<lparr>MinReplicas = Some 1, MaxReplicas = 100, TargetCPUUtilizationPercentage = None\<rparr>
     = Ok \<lparr>MinReplicas = Some 50, MaxReplicas = 100, TargetCPUUtilizationPercentage = None\<rparr> \<and>
   ParseFloat32 ''2'' = Ok (Finite 2) \<and>
   update indefinite32 \<lparr>Minimum = ''2x'', Maximum = ''7'', CPUTarget = 0\<rparr>
     \<lparr>MinReplicas = Some 3, MaxReplicas = 4, TargetCPUUtilizationPercentage = None\<rparr>
     = Ok \<lparr>MinReplicas = Some 6, MaxReplicas = 6, TargetCPUUtilizationPercentage = None\<rparr> \<and>
   Atoi ''2'' = Ok 2 \<and>
   update indefinite32 \<lparr>Minimum = '''', Maximum = ''2'', CPUTarget = 0\<rparr>
     \<lparr>MinReplicas = Some 5, MaxReplicas = 10, TargetCPUUtilizationPercentage = None\<rparr>
     = Ok \<lparr>MinReplicas = Some 2, MaxReplicas = 2, TargetCPUUtilizationPercentage = None\<rparr> \<and>
   update indefinite32 \<lparr>Minimum = '''', Maximum = ''50%'', CPUTarget = 0\<rparr>
     \<lparr>MinReplicas = Some 1, MaxReplicas = 100, TargetCPUUtilizationPercentage = None\<rparr>
     = Ok \<lparr>MinReplicas = Some 1, MaxReplicas = 50, TargetCPUUtilizationPercentage = None\<rparr> \<and>
   ParseFloat32 ''0'' = Ok (Finite 0) \<and>
   update indefinite32 \<lparr>Minimum = '''', Maximum = ''0x'', CPUTarget = 0\<rparr>
     \<lparr>MinReplicas = Some 2, MaxReplicas = 10, TargetCPUUtilizationPercentage = None\<rparr>
     = Ok \<lparr>MinReplicas = Some 0, MaxReplicas = 0, TargetCPUUtilizationPercentage = None\<rparr>"
proof -
  note r = reconciliation_changes_only_other_field[where oor = indefinite32]
  let ?h = "\<lparr>MinReplicas = Some (7::int32), MaxReplicas = 3, TargetCPUUtilizationPercentage = None\<rparr>"
  have a1: "reconcileMax ?h
      = Ok \<lparr>MinReplicas = Some 7, MaxReplicas = 7, TargetCPUUtilizationPercentage = None\<rparr>"
    by (simp add: reconcileMax_def word_sless_alt)
  have b1: "\<exists>m. MinReplicas ?h = Some m \<and>
        \<lparr>MinReplicas = Some 7, MaxReplicas = 7, TargetCPUUtilizationPercentage = None\<rparr> =
        ?h\<lparr>MaxReplicas := (if 3 <s m then m else 3)\<rparr>"
    using r[where hpa = ?h, THEN conjunct1, rule_format, OF a1] by simp
  have a2: "reconcileMin ?h
      = Ok \<lparr>MinReplicas = Some 3, MaxReplicas = 3, TargetCPUUtilizationPercentage = None\<rparr>"
    by (simp add: reconcileMin_def word_sless_alt)
  have b2: "\<exists>m. MinReplicas ?h = Some m \<and>
        \<lparr>MinReplicas = Some 3, MaxReplicas = 3, TargetCPUUtilizationPercentage = None\<rparr> =
        ?h\<lparr>MinReplicas := Some (if 3 <s m then 3 else m)\<rparr>"
    using r[where hpa = ?h, THEN conjunct2, THEN conjunct1, rule_format, OF a2] by simp
  let ?p3 = "\<lparr>Minimum = ''5'', Maximum = ''2x'', CPUTarget = 0\<rparr>"
  let ?h3 = "\<lparr>MinReplicas = Some (1::int32), MaxReplicas = 3, TargetCPUUtilizationPercentage = None\<rparr>"
  have n5: "Atoi ''5'' = Ok 5" by (simp add: string_eval)
  have a3: "\<not> 0 <s CPUTarget ?p3 \<and> Number (Minimum ?p3) \<and> Atoi (Minimum ?p3) = Ok 5"
    by (simp add: word_sless_alt string_eval)
  have b3: "update indefinite32 ?p3 ?h3
      = Ok \<lparr>MinReplicas = Some 5, MaxReplicas = 5, TargetCPUUtilizationPercentage = None\<rparr>"
    using r[where hpa = ?h3, THEN conjunct2, THEN conjunct2, THEN conjunct1, rule_format, OF a3]
    by (simp add: word_sless_alt)
  let ?p4 = "\<lparr>Minimum = ''50%'', Maximum = ''2x'', CPUTarget = 0\<rparr>"
  let ?h4 = "\<lparr>MinReplicas = Some (1::int32), MaxReplicas = 100, TargetCPUUtilizationPercentage = None\<rparr>"
  have a4: "\<not> 0 <s CPUTarget ?p4 \<and> \<not> Number (Minimum ?p4) \<and> Percentage (Minimum ?p4) \<and>
      ParseFloat32 (butlast (Minimum ?p4)) = Ok (Finite 50) \<and> MinReplicas ?h4 = Some 1"
    by (simp add: word_sless_alt Number_def Percentage_def isNumeric_def isDigit_def
          ParseFloat32_50)
  have b4: "update indefinite32 ?p4 ?h4
      = Ok \<lparr>MinReplicas = Some 50, MaxReplicas = 100, TargetCPUUtilizationPercentage = None\<rparr>"
    using r[where hpa = ?h4, THEN conjunct2, THEN conjunct2, THEN conjunct2, THEN conjunct1,
        rule_format, OF a4] half_of_hundred[of indefinite32]
    by (simp add: Let_def word_sless_alt)
  let ?p5 = "\<lparr>Minimum = ''2x'', Maximum = ''7'', CPUTarget = 0\<rparr>"
  let ?h5 = "\<lparr>MinReplicas = Some (3::int32), MaxReplicas = 4, TargetCPUUtilizationPercentage = None\<rparr>"
  have a5: "\<not> 0 <s CPUTarget ?p5 \<and> \<not> Number (Minimum ?p5) \<and> \<not> Percentage (Minimum ?p5) \<and>
      Multiply (Minimum ?p5) \<and>
      ParseFloat32 (butlast (Minimum ?p5)) = Ok (Finite 2) \<and> MinReplicas ?h5 = Some 3"
    by (simp add: word_sless_alt Number_def Percentage_def Multiply_def isNumeric_def isDigit_def
          ParseFloat32_2)
  have b5: "update indefinite32 ?p5 ?h5
      = Ok \<lparr>MinReplicas = Some 6, MaxReplicas = 6, TargetCPUUtilizationPercentage = None\<rparr>"
    using r[where hpa = ?h5, THEN conjunct2, THEN conjunct2, THEN conjunct2, THEN conjunct2,
        THEN conjunct1, rule_format, OF a5] twice_three[of indefinite32]
    by (simp add: Let_def word_sless_alt)
  let ?p6 = "\<lparr>Minimum = '''', Maximum = ''2'', CPUTarget = 0\<rparr>"
  let ?h6 = "\<lparr>MinReplicas = Some (5::int32), MaxReplicas = 10, TargetCPUUtilizationPercentage = None\<rparr>"
  have n2: "Atoi ''2'' = Ok 2" by (simp add: string_eval)
  have a6: "\<not> 0 <s CPUTarget ?p6 \<and> \<not> recognized (Minimum ?p6) \<and> Number (Maximum ?p6) \<and>
      Atoi (Maximum ?p6) = Ok 2 \<and> MinReplicas ?h6 = Some 5"
    by (simp add: word_sless_alt string_eval)
  have b6: "update indefinite32 ?p6 ?h6
      = Ok \<lparr>MinReplicas = Some 2, MaxReplicas = 2, TargetCPUUtilizationPercentage = None\<rparr>"
    using r[where hpa = ?h6, THEN conjunct2, THEN conjunct2, THEN conjunct2, THEN conjunct2,
        THEN conjunct2, THEN conjunct1, rule_format, OF a6]
    by (simp add: word_sless_alt)
  let ?p7 = "\<lparr>Minimum = '''', Maximum = ''50%'', CPUTarget = 0\<rparr>"
  have a7: "\<not> 0 <s CPUTarget ?p7 \<and> \<not> recognized (Minimum ?p7) \<and> \<not> Number (Maximum ?p7) \<and>
      Percentage (Maximum ?p7) \<and>
      ParseFloat32 (butlast (Maximum ?p7)) = Ok (Finite 50) \<and> MinReplicas ?h4 = Some 1"
    by (simp add: word_sless_alt Number_def Percentage_def Multiply_def isNumeric_def isDigit_def
          ParseFloat32_50)
  have b7: "update indefinite32 ?p7 ?h4
      = Ok \<lparr>MinReplicas = Some 1, MaxReplicas = 50, TargetCPUUtilizationPercentage = None\<rparr>"
    using r[where hpa = ?h4, THEN conjunct2, THEN conjunct2, THEN conjunct2, THEN conjunct2,
        THEN conjunct2, THEN conjunct2, THEN conjunct1, rule_format, OF a7]
      half_of_hundred[of indefinite32]
    by (simp add: Let_def word_sless_alt)
  let ?p8 = "\<lparr>Minimum = '''', Maximum = ''0x'', CPUTarget = 0\<rparr>"
  let ?h8 = "\<lparr>MinReplicas = Some (2::int32), MaxReplicas = 10, TargetCPUUtilizationPercentage = None\<rparr>"
  have a8: "\<not> 0 <s CPUTarget ?p8 \<and> \<not> recognized (Minimum ?p8) \<and> \<not> Number (Maximum ?p8) \<and>
      \<not> Percentage (Maximum ?p8) \<and> Multiply (Maximum ?p8) \<and>
      ParseFloat32 (butlast (Maximum ?p8)) = Ok (Finite 0) \<and> MinReplicas ?h8 = Some 2"
    by (simp add: word_sless_alt Number_def Percentage_def Multiply_def isNumeric_def isDigit_def
          ParseFloat32_0)
  have b8: "update indefinite32 ?p8 ?h8
      = Ok \<lparr>MinReplicas = Some 0, MaxReplicas = 0, TargetCPUUtilizationPercentage = None\<rparr>"
    using r[where hpa = ?h8, THEN conjunct2, THEN conjunct2, THEN conjunct2, THEN conjunct2,
        THEN conjunct2, THEN conjunct2, THEN conjunct2, rule_format, OF a8]
      zero_times_ten[of indefinite32]
    by (simp add: Let_def word_sless_alt)
  show ?thesis
    using a1 b1 a2 b2 n5 b3 ParseFloat32_50 b4 ParseFloat32_2 b5 n2 b6 b7 ParseFloat32_0 b8
    by (intro conjI)
qed
text \<open>
  C5, as the code has it. Resolution reads the CPU target first, then the minimum, then
  the maximum, and the first of them that is set decides alone. With a positive CPU
  target the two expressions play no role and the strategy writes the CPU target. Otherwise,
  with a recognized minimum the maximum plays no role: when the number converts, the
  strategy for the minimum is produced, and when it does not, the conversion error is
  returned and no strategy. Otherwise an unrecognized minimum is ignored and a
  recognized maximum decides in the same way. With nothing recognized, resolution
  returns the error \<open>InvalidArguments\<close> and no strategy.
\<close>

theorem resolution_order:
  "(0 <s CPUTarget program \<longrightarrow>
      getStrategy oor (program\<lparr>Minimum := a, Maximum := b\<rparr>) = getStrategy oor program \<and>
      getStrategy oor program =
        Ok (\<lambda>hpa. case TargetCPUUtilizationPercentage hpa of
                     None \<Rightarrow> Panic NilDereference
                   | Some t \<Rightarrow>
                       Ok (hpa\<lparr>TargetCPUUtilizationPercentage :=
                                 Some (ucast (CPUTarget program))\<rparr>))) \<and>
   (\<not> 0 <s CPUTarget program \<and> recognized (Minimum program) \<longrightarrow>
      getStrategy oor (program\<lparr>Maximum := b\<rparr>) = getStrategy oor program) \<and>
   (\<not> 0 <s CPUTarget program \<and> Number (Minimum program) \<longrightarrow>
      getStrategy oor program =
        (case Atoi (Minimum program) of
           Err e \<Rightarrow> Err e
         | Panic q \<Rightarrow> Panic q
         | Ok num \<Rightarrow> Ok (\<lambda>hpa. reconcileMax (hpa\<lparr>MinReplicas := Some (ucast num)\<rparr>)))) \<and>
   (\<not> 0 <s CPUTarget program \<and> \<not> Number (Minimum program) \<and>
      Percentage (Minimum program) \<longrightarrow>
      getStrategy oor program =
        (case ParseFloat32 (butlast (Minimum program)) of
           Err e \<Rightarrow> Err e
         | Panic q \<Rightarrow> Panic q
         | Ok percent \<Rightarrow>
             Ok (\<lambda>hpa. case MinReplicas hpa of
                          None \<Rightarrow> Panic NilDereference
                        | Some m \<Rightarrow>
                            reconcileMax (hpa\<lparr>MinReplicas := Some (int32_of_float64 oor
                              (Ceil (fmul (fdiv percent (Finite 100))
                                          (float64_of_int (sint (MaxReplicas hpa))))))\<rparr>)))) \<and>
   (\<not> 0 <s CPUTarget program \<and> \<not> Number (Minimum program) \<and>
      \<not> Percentage (Minimum program) \<and> Multiply (Minimum program) \<longrightarrow>
      getStrategy oor program =
        (case ParseFloat32 (butlast (Minimum program)) of
           Err e \<Rightarrow> Err e
         | Panic q \<Rightarrow> Panic q
         | Ok multiplier \<Rightarrow>
             Ok (\<lambda>hpa. case MinReplicas hpa of
                          None \<Rightarrow> Panic NilDereference
                        | Some m \<Rightarrow>
                            reconcileMax (hpa\<lparr>MinReplicas := Some (int32_of_float64 oor
                              (fmul (float64_of_int (sint m)) multiplier))\<rparr>)))) \<and>
   (\<not> 0 <s CPUTarget program \<and> \<not> recognized (Minimum program) \<and> \<not> recognized a \<longrightarrow>
      getStrategy oor (program\<lparr>Minimum := a\<rparr>) = getStrategy oor program) \<and>
   (\<not> 0 <s CPUTarget program \<and> \<not> recognized (Minimum program) \<and>
      Number (Maximum program) \<longrightarrow>
      getStrategy oor program =
        (case Atoi (Maximum program) of
           Err e \<Rightarrow> Err e
         | Panic q \<Rightarrow> Panic q
         | Ok num \<Rightarrow> Ok (\<lambda>hpa. reconcileMin (hpa\<lparr>MaxReplicas := ucast num\<rparr>)))) \<and>
   (\<not> 0 <s CPUTarget program \<and> \<not> recognized (Minimum program) \<and>
      \<not> Number (Maximum program) \<and> Percentage (Maximum program) \<longrightarrow>
      getStrategy oor program =
        (case ParseFloat32 (butlast (Maximum program)) of
           Err e \<Rightarrow> Err e
         | Panic q \<Rightarrow> Panic q
         | Ok percent \<Rightarrow>
             Ok (\<lambda>hpa. reconcileMin (hpa\<lparr>MaxReplicas := int32_of_float64 oor
                   (Ceil (fmul (fdiv percent (Finite 100))
                               (float64_of_int (sint (MaxReplicas hpa)))))\<rparr>)))) \<and>
   (\<not> 0 <s CPUTarget program \<and> \<not> recognized (Minimum program) \<and>
      \<not> Number (Maximum program) \<and> \<not> Percentage (Maximum program) \<and>
      Multiply (Maximum program) \<longrightarrow>
      getStrategy oor program =
        (case ParseFloat32 (butlast (Maximum program)) of
           Err e \<Rightarrow> Err e
         | Panic q \<Rightarrow> Panic q
         | Ok multiplier \<Rightarrow>
             Ok (\<lambda>hpa. reconcileMin (hpa\<lparr>MaxReplicas := int32_of_float64 oor
                   (fmul (float64_of_int (sint (MaxReplicas hpa))) multiplier)\<rparr>)))) \<and>
   (\<not> 0 <s CPUTarget program \<and> \<not> recognized (Minimum program) \<and>
      \<not> recognized (Maximum program) \<longrightarrow>
      getStrategy oor program = Err InvalidArguments)"
proof (intro conjI impI)
  assume c: "0 <s CPUTarget program"
  show "getStrategy oor (program\<lparr>Minimum := a, Maximum := b\<rparr>) = getStrategy oor program"
    by (rule getStrategy_CPUTarget_ignores[OF c])
  show "getStrategy oor program =
        Ok (\<lambda>hpa. case TargetCPUUtilizationPercentage hpa of
                     None \<Rightarrow> Panic NilDereference
                   | Some t \<Rightarrow>
                       Ok (hpa\<lparr>TargetCPUUtilizationPercentage :=
                                 Some (ucast (CPUTarget program))\<rparr>))"
    by (rule getStrategy_CPUTarget[OF c])
next
  assume "\<not> 0 <s CPUTarget program \<and> recognized (Minimum program)"
  then show "getStrategy oor (program\<lparr>Maximum := b\<rparr>) = getStrategy oor program"
    using getStrategy_ignores_Maximum by blast
next
  assume "\<not> 0 <s CPUTarget program \<and> Number (Minimum program)"
  then have c: "\<not> 0 <s CPUTarget program" "Number (Minimum program)" by simp_all
  show "getStrategy oor program =
        (case Atoi (Minimum program) of
           Err e \<Rightarrow> Err e
         | Panic q \<Rightarrow> Panic q
         | Ok num \<Rightarrow> Ok (\<lambda>hpa. reconcileMax (hpa\<lparr>MinReplicas := Some (ucast num)\<rparr>)))"
    by (rule getStrategy_Minimum_Number[OF c])
next
  assume "\<not> 0 <s CPUTarget program \<and> \<not> Number (Minimum program) \<and>
      Percentage (Minimum program)"
  then have c: "\<not> 0 <s CPUTarget program" "\<not> Number (Minimum program)"
    "Percentage (Minimum program)" by simp_all
  show "getStrategy oor program =
        (case ParseFloat32 (butlast (Minimum program)) of
           Err e \<Rightarrow> Err e
         | Panic q \<Rightarrow> Panic q
         | Ok percent \<Rightarrow>
             Ok (\<lambda>hpa. case MinReplicas hpa of
                          None \<Rightarrow> Panic NilDereference
                        | Some m \<Rightarrow>
                            reconcileMax (hpa\<lparr>MinReplicas := Some (int32_of_float64 oor
                              (Ceil (fmul (fdiv percent (Finite 100))
                                          (float64_of_int (sint (MaxReplicas hpa))))))\<rparr>)))"
    by (rule getStrategy_Minimum_Percentage[OF c])
next
  assume "\<not> 0 <s CPUTarget program \<and> \<not> Number (Minimum program) \<and>
      \<not> Percentage (Minimum program) \<and> Multiply (Minimum program)"
  then have c: "\<not> 0 <s CPUTarget program" "\<not> Number (Minimum program)"
    "\<not> Percentage (Minimum program)" "Multiply (Minimum program)" by simp_all
  show "getStrategy oor program =
        (case ParseFloat32 (butlast (Minimum program)) of
           Err e \<Rightarrow> Err e
         | Panic q \<Rightarrow> Panic q
         | Ok multiplier \<Rightarrow>
             Ok (\<lambda>hpa. case MinReplicas hpa of
                          None \<Rightarrow> Panic NilDereference
                        | Some m \<Rightarrow>
                            reconcileMax (hpa\<lparr>MinReplicas := Some (int32_of_float64 oor
                              (fmul (float64_of_int (sint m)) multiplier))\<rparr>)))"
    by (rule getStrategy_Minimum_Multiply[OF c])
next
  assume "\<not> 0 <s CPUTarget program \<and> \<not> recognized (Minimum program) \<and> \<not> recognized a"
  then show "getStrategy oor (program\<lparr>Minimum := a\<rparr>) = getStrategy oor program"
    using getStrategy_ignores_unrecognized_Minimum by blast
next
  assume "\<not> 0 <s CPUTarget program \<and> \<not> recognized (Minimum program) \<and>
      Number (Maximum program)"
  then have c: "\<not> 0 <s CPUTarget program" "\<not> recognized (Minimum program)"
    "Number (Maximum program)" by simp_all
  show "getStrategy oor program =
        (case Atoi (Maximum program) of
           Err e \<Rightarrow> Err e
         | Panic q \<Rightarrow> Panic q
         | Ok num \<Rightarrow> Ok (\<lambda>hpa. reconcileMin (hpa\<lparr>MaxReplicas := ucast num\<rparr>)))"
    by (rule getStrategy_Maximum_Number[OF c])
next
  assume "\<not> 0 <s CPUTarget program \<and> \<not> recognized (Minimum program) \<and>
      \<not> Number (Maximum program) \<and> Percentage (Maximum program)"
  then have c: "\<not> 0 <s CPUTarget program" "\<not> recognized (Minimum program)"
    "\<not> Number (Maximum program)" "Percentage (Maximum program)" by simp_all
  show "getStrategy oor program =
        (case ParseFloat32 (butlast (Maximum program)) of
           Err e \<Rightarrow> Err e
         | Panic q \<Rightarrow> Panic q
         | Ok percent \<Rightarrow>
             Ok (\<lambda>hpa. reconcileMin (hpa\<lparr>MaxReplicas := int32_of_float64 oor
                   (Ceil (fmul (fdiv percent (Finite 100))
                               (float64_of_int (sint (MaxReplicas hpa)))))\<rparr>)))"
    by (rule getStrategy_Maximum_Percentage[OF c])
next
  assume "\<not> 0 <s CPUTarget program \<and> \<not> recognized (Minimum program) \<and>
      \<not> Number (Maximum program) \<and> \<not> Percentage (Maximum program) \<and>
      Multiply (Maximum program)"
  then have c: "\<not> 0 <s CPUTarget program" "\<not> recognized (Minimum program)"
    "\<not> Number (Maximum program)" "\<not> Percentage (Maximum program)"
    "Multiply (Maximum program)" by simp_all
  show "getStrategy oor program =
        (case ParseFloat32 (butlast (Maximum program)) of
           Err e \<Rightarrow> Err e
         | Panic q \<Rightarrow> Panic q
         | Ok multiplier \<Rightarrow>
             Ok (\<lambda>hpa. reconcileMin (hpa\<lparr>MaxReplicas := int32_of_float64 oor
                   (fmul (float64_of_int (sint (MaxReplicas hpa))) multiplier)\<rparr>)))"
    by (rule getStrategy_Maximum_Multiply[OF c])
next
  assume "\<not> 0 <s CPUTarget program \<and> \<not> recognized (Minimum program) \<and>
      \<not> recognized (Maximum program)"
  then show "getStrategy oor program = Err InvalidArguments"
    using getStrategy_unrecognized by blast
qed

theorem resolution_order_witness:
  "0 <s CPUTarget \<lparr>Minimum = ''5'', Maximum = ''2x'', CPUTarget = 80\<rparr> \<and>
   update indefinite32 \<lparr>Minimum = ''5'', Maximum = ''2x'', CPUTarget = 80\<rparr>
     \<lparr>MinReplicas = Some 1, MaxReplicas = 3, TargetCPUUtilizationPercentage = Some 50\<rparr>
     = Ok \<lparr>MinReplicas = Some 1, MaxReplicas = 3, TargetCPUUtilizationPercentage = Some 80\<rparr> \<and>
   recognized ''5'' \<and>
   getStrategy indefinite32 (\<lparr>Minimum = ''5'', Maximum = ''2x'', CPUTarget = 0\<rparr>
       \<lparr>Maximum := ''abc''\<rparr>)
     = getStrategy indefinite32 \<lparr>Minimum = ''5'', Maximum = ''2x'', CPUTarget = 0\<rparr> \<and>
   update indefinite32 \<lparr>Minimum = ''5'', Maximum = ''2x'', CPUTarget = 0\<rparr>
     \<lparr>MinReplicas = Some 1, MaxReplicas = 3, TargetCPUUtilizationPercentage = None\<rparr>
     = Ok \<lparr>MinReplicas = Some 5, MaxReplicas = 5, TargetCPUUtilizationPercentage = None\<rparr> \<and>
   update indefinite32 \<lparr>Minimum = ''50%'', Maximum = ''2x'', CPUTarget = 0\<rparr>
     \<lparr>MinReplicas = Some 1, MaxReplicas = 100, TargetCPUUtilizationPercentage = None\<rparr>
     = Ok \<lparr>MinReplicas = Some 50, MaxReplicas = 100, TargetCPUUtilizationPercentage = None\<rparr> \<and>
   update indefinite32 \<lparr>Minimum = ''2x'', Maximum = ''7'', CPUTarget = 0\<rparr>
     \<lparr>MinReplicas = Some 3, MaxReplicas = 4, TargetCPUUtilizationPercentage = None\<rparr>
     = Ok \<lparr>MinReplicas = Some 6, MaxReplicas = 6, TargetCPUUtilizationPercentage = None\<rparr> \<and>
   \<not> recognized ''abc'' \<and> \<not> recognized '''' \<and>
   getStrategy indefinite32 (\<lparr>Minimum = ''abc'', Maximum = ''2'', CPUTarget = 0\<rparr>
       \<lparr>Minimum := ''''\<rparr>)
     = getStrategy indefinite32 \<lparr>Minimum = ''abc'', Maximum = ''2'', CPUTarget = 0\<rparr> \<and>
   update indefinite32 \<lparr>Minimum = ''abc'', Maximum = ''2'', CPUTarget = 0\<rparr>
     \<lparr>MinReplicas = Some 5, MaxReplicas = 10, TargetCPUUtilizationPercentage = None\<rparr>
     = Ok \<lparr>MinReplicas = Some 2, MaxReplicas = 2, TargetCPUUtilizationPercentage = None\<rparr> \<and>
   update indefinite32 \<lparr>Minimum = ''abc'', Maximum = ''50%'', CPUTarget = 0\<rparr>
     \<lparr>MinReplicas = Some 1, MaxReplicas = 100, TargetCPUUtilizationPercentage = None\<rparr>
     = Ok \<lparr>MinReplicas = Some 1, MaxReplicas = 50, TargetCPUUtilizationPercentage = None\<rparr> \<and>
   update indefinite32 \<lparr>Minimum = ''abc'', Maximum = ''0x'', CPUTarget = 0\<rparr>
     \<lparr>MinReplicas = Some 2, MaxReplicas = 10, TargetCPUUtilizationPercentage = None\<rparr>
     = Ok \<lparr>MinReplicas = Some 0, MaxReplicas = 0, TargetCPUUtilizationPercentage = None\<rparr> \<and>
   \<not> recognized ''1.5'' \<and>
   getStrategy indefinite32 \<lparr>Minimum = ''abc'', Maximum = ''1.5'', CPUTarget = 0\<rparr>
     = Err InvalidArguments"
proof -
  note r = resolution_order[where oor = indefinite32]
  have rec: "recognized ''5''" "\<not> recognized ''abc''" "\<not> recognized ''''"
    "\<not> recognized ''1.5''"
    by (simp_all add: Number_def Percentage_def Multiply_def isNumeric_def isDigit_def)
  let ?p1 = "\<lparr>Minimum = ''5'', Maximum = ''2x'', CPUTarget = 80\<rparr>"
  let ?h1 = "\<lparr>MinReplicas = Some (1::int32), MaxReplicas = 3,
              TargetCPUUtilizationPercentage = Some (50::int32)\<rparr>"
  have a1: "0 <s CPUTarget ?p1" by (simp add: word_sless_alt)
  have b1: "update indefinite32 ?p1 ?h1
      = Ok \<lparr>MinReplicas = Some 1, MaxReplicas = 3, TargetCPUUtilizationPercentage = Some 80\<rparr>"
    unfolding update_def
      r[where program = ?p1, THEN conjunct1, rule_format, OF a1, THEN conjunct2]
    by simp
  let ?p3 = "\<lparr>Minimum = ''5'', Maximum = ''2x'', CPUTarget = 0\<rparr>"
  let ?h3 = "\<lparr>MinReplicas = Some (1::int32), MaxReplicas = 3, TargetCPUUtilizationPercentage = None\<rparr>"
  have a2: "\<not> 0 <s CPUTarget ?p3 \<and> recognized (Minimum ?p3)"
    by (simp add: word_sless_alt string_eval)
  have b2: "getStrategy indefinite32 (?p3\<lparr>Maximum := ''abc''\<rparr>) = getStrategy indefinite32 ?p3"
    by (rule r[THEN conjunct2, THEN conjunct1, rule_format, OF a2])
  have a3: "\<not> 0 <s CPUTarget ?p3 \<and> Number (Minimum ?p3)"
    by (simp add: word_sless_alt string_eval)
  have b3: "update indefinite32 ?p3 ?h3
      = Ok \<lparr>MinReplicas = Some 5, MaxReplicas = 5, TargetCPUUtilizationPercentage = None\<rparr>"
    unfolding update_def
      r[where program = ?p3, THEN conjunct2, THEN conjunct2, THEN conjunct1, rule_format, OF a3]
    by (simp add: string_eval reconcileMax_def word_sless_alt)
  let ?p4 = "\<lparr>Minimum = ''50%'', Maximum = ''2x'', CPUTarget = 0\<rparr>"
  let ?h4 = "\<lparr>MinReplicas = Some (1::int32), MaxReplicas = 100, TargetCPUUtilizationPercentage = None\<rparr>"
  have a4: "\<not> 0 <s CPUTarget ?p4 \<and> \<not> Number (Minimum ?p4) \<and> Percentage (Minimum ?p4)"
    by (simp add: word_sless_alt Number_def Percentage_def isNumeric_def isDigit_def)
  have b4: "update indefinite32 ?p4 ?h4
      = Ok \<lparr>MinReplicas = Some 50, MaxReplicas = 100, TargetCPUUtilizationPercentage = None\<rparr>"
    unfolding update_def
      r[where program = ?p4, THEN conjunct2, THEN conjunct2, THEN conjunct2, THEN conjunct1,
        rule_format, OF a4]
    using half_of_hundred[of indefinite32]
    by (simp add: ParseFloat32_50 reconcileMax_def word_sless_alt)
  let ?p5 = "\<lparr>Minimum = ''2x'', Maximum = ''7'', CPUTarget = 0\<rparr>"
  let ?h5 = "\<lparr>MinReplicas = Some (3::int32), MaxReplicas = 4, TargetCPUUtilizationPercentage = None\<rparr>"
  have a5: "\<not> 0 <s CPUTarget ?p5 \<and> \<not> Number (Minimum ?p5) \<and> \<not> Percentage (Minimum ?p5) \<and>
      Multiply (Minimum ?p5)"
    by (simp add: word_sless_alt Number_def Percentage_def Multiply_def isNumeric_def isDigit_def)
  have b5: "update indefinite32 ?p5 ?h5
      = Ok \<lparr>MinReplicas = Some 6, MaxReplicas = 6, TargetCPUUtilizationPercentage = None\<rparr>"
    unfolding update_def
      r[where program = ?p5, THEN conjunct2, THEN conjunct2, THEN conjunct2, THEN conjunct2,
        THEN conjunct1, rule_format, OF a5]
    using twice_three[of indefinite32]
    by (simp add: ParseFloat32_2 reconcileMax_def word_sless_alt)
  let ?p7 = "\<lparr>Minimum = ''abc'', Maximum = ''2'', CPUTarget = 0\<rparr>"
  let ?h7 = "\<lparr>MinReplicas = Some (5::int32), MaxReplicas = 10, TargetCPUUtilizationPercentage = None\<rparr>"
  have a6: "\<not> 0 <s CPUTarget ?p7 \<and> \<not> recognized (Minimum ?p7) \<and> \<not> recognized ''''"
    by (simp add: word_sless_alt Number_def Percentage_def Multiply_def isNumeric_def isDigit_def)
  have b6: "getStrategy indefinite32 (?p7\<lparr>Minimum := ''''\<rparr>) = getStrategy indefinite32 ?p7"
    by (rule r[THEN conjunct2, THEN conjunct2, THEN conjunct2, THEN conjunct2, THEN conjunct2,
          THEN conjunct1, rule_format, OF a6])
  have a7: "\<not> 0 <s CPUTarget ?p7 \<and> \<not> recognized (Minimum ?p7) \<and> Number (Maximum ?p7)"
    by (simp add: word_sless_alt Number_def Percentage_def Multiply_def isNumeric_def isDigit_def)
  have b7: "update indefinite32 ?p7 ?h7
      = Ok \<lparr>MinReplicas = Some 2, MaxReplicas = 2, TargetCPUUtilizationPercentage = None\<rparr>"
    unfolding update_def
      r[where program = ?p7, THEN conjunct2, THEN conjunct2, THEN conjunct2, THEN conjunct2,
        THEN conjunct2, THEN conjunct2, THEN conjunct1, rule_format, OF a7]
    by (simp add: string_eval reconcileMin_def word_sless_alt)
  let ?p8 = "\<lparr>Minimum = ''abc'', Maximum = ''50%'', CPUTarget = 0\<rparr>"
  have a8: "\<not> 0 <s CPUTarget ?p8 \<and> \<not> recognized (Minimum ?p8) \<and> \<not> Number (Maximum ?p8) \<and>
      Percentage (Maximum ?p8)"
    by (simp add: word_sless_alt Number_def Percentage_def Multiply_def isNumeric_def isDigit_def)
  have b8: "update indefinite32 ?p8 ?h4
      = Ok \<lparr>MinReplicas = Some 1, MaxReplicas = 50, TargetCPUUtilizationPercentage = None\<rparr>"
    unfolding update_def
      r[where program = ?p8, THEN conjunct2, THEN conjunct2, THEN conjunct2, THEN conjunct2,
        THEN conjunct2, THEN conjunct2, THEN conjunct2, THEN conjunct1, rule_format, OF a8]
    using half_of_hundred[of indefinite32]
    by (simp add: ParseFloat32_50 reconcileMin_def word_sless_alt)
  let ?p9 = "\<lparr>Minimum = ''abc'', Maximum = ''0x'', CPUTarget = 0\<rparr>"
  let ?h9 = "\<lparr>MinReplicas = Some (2::int32), MaxReplicas = 10, TargetCPUUtilizationPercentage = None\<rparr>"
  have a9: "\<not> 0 <s CPUTarget ?p9 \<and> \<not> recognized (Minimum ?p9) \<and> \<not> Number (Maximum ?p9) \<and>
      \<not> Percentage (Maximum ?p9) \<and> Multiply (Maximum ?p9)"
    by (simp add: word_sless_alt Number_def Percentage_def Multiply_def isNumeric_def isDigit_def)
  have b9: "update indefinite32 ?p9 ?h9
      = Ok \<lparr>MinReplicas = Some 0, MaxReplicas = 0, TargetCPUUtilizationPercentage = None\<rparr>"
    unfolding update_def
      r[where program = ?p9, THEN conjunct2, THEN conjunct2, THEN conjunct2, THEN conjunct2,
        THEN conjunct2, THEN conjunct2, THEN conjunct2, THEN conjunct2, THEN conjunct1,
        rule_format, OF a9]
    using zero_times_ten[of indefinite32]
    by (simp add: ParseFloat32_0 reconcileMin_def word_sless_alt)
  let ?p10 = "\<lparr>Minimum = ''abc'', Maximum = ''1.5'', CPUTarget = 0\<rparr>"
  have a10: "\<not> 0 <s CPUTarget ?p10 \<and> \<not> recognized (Minimum ?p10) \<and>
      \<not> recognized (Maximum ?p10)"
    by (simp add: word_sless_alt Number_def Percentage_def Multiply_def isNumeric_def isDigit_def)
  have b10: "getStrategy indefinite32 ?p10 = Err InvalidArguments"
    by (rule r[THEN conjunct2, THEN conjunct2, THEN conjunct2, THEN conjunct2, THEN conjunct2,
          THEN conjunct2, THEN conjunct2, THEN conjunct2, THEN conjunct2, rule_format, OF a10])
  show ?thesis
    using a1 b1 rec(1) b2 b3 b4 b5 rec(2) rec(3) b6 b7 b8 b9 rec(4) b10
    by (intro conjI)
qed

text \<open>
  C5 as stated fails: the minimum \<open>1.2.3%\<close> is set and the pattern for percentages
  accepts it, and the maximum \<open>5\<close> behind it is a number, yet resolution produces no
  strategy, neither for the minimum nor for the maximum, and the error is the
  conversion's, not \<open>InvalidArguments\<close>.
\<close>

theorem unconvertible_minimum_gives_no_strategy:
  "Percentage ''1.2.3%'' \<and> Number ''5'' \<and>
   getStrategy indefinite32 \<lparr>Minimum = ''1.2.3%'', Maximum = ''5'', CPUTarget = 0\<rparr>
     = Err ErrSyntax"
  by (simp add: getStrategy_def word_sless_alt string_eval)

text \<open>
  \<open>ParseFloat32\<close> returns the number the numeral writes, rounded to a \<open>float32\<close>.
\<close>

lemma guarded_Ok: "(if c then x else Err e) = Ok f \<Longrightarrow> x = Ok f"
  by (cases c) simp_all

lemma ParseFloat32_decimalValue:
  assumes "ParseFloat32 s = Ok f"
  shows "float32_of_rat (decimalValue s) = Ok f"
proof (cases "dropWhile isDigit s")
  case Nil
  have "ParseFloat32 s =
      (case takeWhile isDigit s of [] \<Rightarrow> Err ErrSyntax
       | c # cs \<Rightarrow> float32_of_rat (of_nat (decimal (takeWhile isDigit s))))"
    unfolding ParseFloat32_def Let_def Nil by (simp only: list.case)
  moreover have "decimalValue s = of_nat (decimal (takeWhile isDigit s))"
    unfolding decimalValue_def Let_def Nil by (simp only: list.case)
  ultimately show ?thesis
    using assms by (cases "takeWhile isDigit s") simp_all
next
  case (Cons d fp)
  have "ParseFloat32 s =
      (if d = CHR ''.'' \<and> list_all isDigit fp \<and> 0 < length (takeWhile isDigit s) + length fp
       then float32_of_rat (of_nat (decimal (takeWhile isDigit s @ fp)) / 10 ^ length fp)
       else Err ErrSyntax)"
    unfolding ParseFloat32_def Let_def Cons by (simp only: list.case)
  with assms have
    "(if d = CHR ''.'' \<and> list_all isDigit fp \<and> 0 < length (takeWhile isDigit s) + length fp
      then float32_of_rat (of_nat (decimal (takeWhile isDigit s @ fp)) / 10 ^ length fp)
      else Err ErrSyntax) = Ok f"
    by (simp only:)
  then have "float32_of_rat (of_nat (decimal (takeWhile isDigit s @ fp)) / 10 ^ length fp) = Ok f"
    by (rule guarded_Ok)
  moreover have "decimalValue s = of_nat (decimal (takeWhile isDigit s @ fp)) / 10 ^ length fp"
    unfolding decimalValue_def Let_def Cons by (simp only: list.case)
  ultimately show ?thesis by (simp only:)
qed





text \<open>
  A multiplier that is not a \<open>float32\<close> is read as the nearest one, which the
  statement above leaves out: \<open>0.7\<close> is read as \<open>11744051 / 16777216\<close>, just below
  \<open>7 / 10\<close>, and \<open>0.7x\<close> on a maximum of \<open>10\<close> gives \<open>6\<close>.
\<close>

lemma float32_of_rat_eqI:
  assumes "2 powi e \<le> \<bar>x\<bar>" "\<bar>x\<bar> < 2 powi (e + 1)" "- 126 \<le> e"
    and "\<bar>x / 2 powi (e - 23) - of_int k\<bar> < 1 / 2"
    and "of_int k * 2 powi (e - 23) < (2::rat) ^ 128"
  shows "float32_of_rat x = Ok (Finite (of_int k * 2 powi (e - 23)))"
proof -
  have m: "max e (- 126) = e" using assms(3) by simp
  have "round_float 24 (- 126) x = of_int k * 2 powi (e - 23)"
    using round_float_eqI[OF assms(1,2), of 24 "- 126"] rne_eqI[OF assms(4)] by (simp add: m)
  then show ?thesis using assms(5) by (simp add: float32_of_rat_def Let_def not_le)
qed

lemma ParseFloat32_seven_tenths: "ParseFloat32 ''0.7'' = Ok (Finite (11744051 / 16777216))"
  using float32_of_rat_eqI[of "- 1" "7 / 10" 11744051] by (simp add: string_eval)

lemma seven_tenths_times_ten:
  "int32_of_float64 oor
     (fmul (float64_of_int (sint (10 :: int32))) (Finite (11744051 / 16777216))) = 6"
proof -
  have s: "sint (10 :: int32) = 10" by simp
  have t: "\<lfloor>58720255 / 8388608 :: rat\<rfloor> = 6"
    by (rule floor_unique) simp_all
  have "fmul (float64_of_int 10) (Finite (11744051 / 16777216)) = Finite (58720255 / 8388608)"
    using fl64_exact[of "58720255 / 8388608" 58720255 "- 23"]
    by (simp add: float64_of_int_exact)
  then show ?thesis
    by (simp only: s) (simp add: int32_of_float64_def trunc_def t)
qed

lemma seven_tenths_of_ten:
  "update oor \<lparr>Minimum = '''', Maximum = ''0.7x'', CPUTarget = 0\<rparr>
     \<lparr>MinReplicas = Some 1, MaxReplicas = 10, TargetCPUUtilizationPercentage = None\<rparr>
     = Ok \<lparr>MinReplicas = Some 1, MaxReplicas = 6, TargetCPUUtilizationPercentage = None\<rparr>"
proof -
  let ?p = "\<lparr>Minimum = '''', Maximum = ''0.7x'', CPUTarget = 0\<rparr>"
  let ?h = "\<lparr>MinReplicas = Some (1::int32), MaxReplicas = 10, TargetCPUUtilizationPercentage = None\<rparr>"
  have c: "\<not> 0 <s CPUTarget ?p" "\<not> Number (Minimum ?p)" "\<not> Percentage (Minimum ?p)"
    "\<not> Multiply (Minimum ?p)" "\<not> Number (Maximum ?p)" "\<not> Percentage (Maximum ?p)"
    "Multiply (Maximum ?p)"
    by (simp_all add: word_sless_alt string_eval)
  have p: "ParseFloat32 (butlast (Maximum ?p)) = Ok (Finite (11744051 / 16777216))"
    by (simp add: ParseFloat32_seven_tenths)
  have m: "MaxReplicas ?h = 10" by simp
  have "update oor ?p ?h = reconcileMin (?h\<lparr>MaxReplicas := 6\<rparr>)"
    unfolding update_Maximum_Multiply[OF c] p m
    by (simp only: result.case seven_tenths_times_ten)
  then show ?thesis by (simp add: reconcileMin_def word_sless_alt)
qed
text \<open>
  C3 at \<open>7%\<close> of a maximum of \<open>100\<close>: the quotient \<open>7 / 100\<close> rounds up in
  \<open>float64\<close>, its product with \<open>100\<close> is above \<open>7\<close>, and the strategy sets the
  minimum to \<open>8\<close>, where \<open>ceil (7 / 100 * 100) = 7\<close>.
\<close>

theorem seven_percent_of_hundred_is_eight:
  "update oor \<lparr>Minimum = ''7%'', Maximum = '''', CPUTarget = 0\<rparr>
     \<lparr>MinReplicas = Some 1, MaxReplicas = 100, TargetCPUUtilizationPercentage = None\<rparr>
     = Ok \<lparr>MinReplicas = Some 8, MaxReplicas = 100, TargetCPUUtilizationPercentage = None\<rparr> \<and>
   \<lceil>7 / 100 * 100 :: rat\<rceil> = 7"
proof -
  let ?p = "\<lparr>Minimum = ''7%'', Maximum = '''', CPUTarget = 0\<rparr>"
  let ?h = "\<lparr>MinReplicas = Some (1::int32), MaxReplicas = 100, TargetCPUUtilizationPercentage = None\<rparr>"
  have c: "\<not> 0 <s CPUTarget ?p" "\<not> Number (Minimum ?p)" "Percentage (Minimum ?p)"
    by (simp_all add: word_sless_alt string_eval)
  have p: "ParseFloat32 (butlast (Minimum ?p)) = Ok (Finite 7)"
    by (simp add: ParseFloat32_7)
  have m: "MaxReplicas ?h = 100" "MinReplicas ?h = Some 1" by simp_all
  have "update oor ?p ?h = reconcileMax (?h\<lparr>MinReplicas := Some 8\<rparr>)"
    unfolding update_Minimum_Percentage[OF c] p m
    by (simp only: result.case option.case seven_percent_of_hundred)
  then show ?thesis by (simp add: reconcileMax_def word_sless_alt)
qed

section \<open>Facts about the renderer\<close>

lemma fl64_half: "fl64 (1 / 2) = Finite (1 / 2)"
  by (rule fl64_exact[where k = 1 and j = "- 1"]) simp_all

lemma length_field: "length field = 40"
  by (simp add: field_def)

lemma length_spaces: "length spaces = 40"
  by (simp add: spaces_def field_def)


lemmas render_eval = formatMarks_def sortSlice_def closeGauge_def Let_def length_field length_spaces float64_of_int_exact
  fl64_zero fl64_one fl64_half fl64_numeral int64_of_float64_def trunc_def word_sless_alt
  Max_sentinel_def













text \<open>
  C8. With \<open>max = 100\<close>, a leading offset of \<open>50\<close> and the single mark \<open>X\<close> at
  \<open>50\<close>, the output is the opening border, a padding of half the width of the gauge,
  \<open>X\<close>, filler, and the closing border with its blank; its length is the width of
  the gauge plus two.
\<close>

theorem half_gauge:
  "formatMarks pdq oor 50 100 [\<lparr>Mark = ''X'', Postion = 50\<rparr>]
     = Ok (''|'' @ replicate (length field div 2) (CHR '' '') @ ''X''
             @ replicate 18 (CHR ''.'') @ ''| '') \<and>
   length (''|'' @ replicate (length field div 2) (CHR '' '') @ ''X''
             @ replicate 18 (CHR ''.'') @ ''| '') = length field + 2"
  by (simp add: render_eval field_def spaces_def)

text \<open>
  C9 at a mark on \<open>max\<close>. The loop guards its filler with \<open>chars > 0\<close>; the fill
  after the loop has no guard. The mark \<open>X\<close> at \<open>100\<close> of \<open>100\<close> is written in
  cell \<open>40\<close>, the builder then holds \<open>41\<close> bytes, and \<open>field[0 : 40 - 41]\<close>
  panics.
\<close>

theorem mark_on_max_panics:
  "\<not> scast (100 :: int32) <s Postion \<lparr>Mark = ''X'', Postion = 100\<rparr> \<and>
   formatMarks pdq oor 0 100 [\<lparr>Mark = ''X'', Postion = 100\<rparr>] = Panic SliceBoundsOutOfRange"
  by (simp add: render_eval field_def spaces_def)

end
